theory Spec2Isabelle
  imports Main "HOL-Library.Word"
begin

unbundle bit_operations_syntax

section \<open>Mapper 094 (Src/Mappers/LSNMapper094.cpp)\<close>

type_synonym uint8_t = "8 word"
type_synonym uint16_t = "16 word"
type_synonym uint64_t = "64 word"

text \<open>The ROM image: only the PRG bytes are used by the mapper code under study.\<close>

record LSN_ROM =
  vPrgRom :: "uint8_t list"

text \<open>The members of \<open>CMapper094\<close> (with the ones it inherits from \<open>CMapperBase\<close>)
  that \<open>InitWithRom\<close>, \<open>ApplyMap\<close> and \<open>SelectBank\<close> touch.  \<open>m_prRom\<close> is a pointer
  to the ROM; the ROM is never written, so the record holds it by value.
  \<open>m_stFixedOffset\<close> is a \<open>size_t\<close>; it only ever holds \<open>max(size, 0x4000) - 0x4000\<close>,
  which cannot wrap, so it is a natural number.\<close>

record CMapper094 =
  m_prRom :: LSN_ROM
  m_ui8PgmBank :: uint8_t
  m_ui8Mask :: uint8_t
  m_stFixedOffset :: nat

text \<open>The handler functions that can sit in a bus slot.  A slot is the pair of a handler
  and its 16-bit parameter (the context pointer is always \<open>this\<close> in the code below).\<close>

datatype access_func =
    PgmBankRead_Fixed
  | PgmBankRead_4000
  | SelectBank_func
  | StdRead
  | StdWrite
  | NoRead
  | NoWrite
  | Write4014_func
  | Read4016_func
  | Write4016_func
  | Read4017_func

record bus =
  readFuncs :: "uint16_t \<Rightarrow> access_func \<times> uint16_t"
  writeFuncs :: "uint16_t \<Rightarrow> access_func \<times> uint16_t"
  floatMasks :: "uint16_t \<Rightarrow> uint8_t"

text \<open>Modelled from the spec: \<open>CBus::SetReadFunc\<close>, \<open>CBus::SetWriteFunc\<close> and
  \<open>CBus::SetFloatMask\<close> are not in the source files covered here.  Spec 4.2: \<open>set_read(addr, handler, ctx, param)\<close>
  / \<open>set_write(addr, handler, ctx, param)\<close> install for one address, and
  \<open>set_float_mask(addr, mask)\<close> sets the mask of one address.\<close>

definition SetReadFunc :: "bus \<Rightarrow> uint16_t \<Rightarrow> access_func \<Rightarrow> uint16_t \<Rightarrow> bus" where
  "SetReadFunc b a f p = b\<lparr>readFuncs := (readFuncs b)(a := (f, p))\<rparr>"

definition SetWriteFunc :: "bus \<Rightarrow> uint16_t \<Rightarrow> access_func \<Rightarrow> uint16_t \<Rightarrow> bus" where
  "SetWriteFunc b a f p = b\<lparr>writeFuncs := (writeFuncs b)(a := (f, p))\<rparr>"

definition SetFloatMask :: "bus \<Rightarrow> uint16_t \<Rightarrow> uint8_t \<Rightarrow> bus" where
  "SetFloatMask b a m = b\<lparr>floatMasks := (floatMasks b)(a := m)\<rparr>"

text \<open>\<open>CMapper094::InitWithRom\<close>.  The call to \<open>CMapperBase::InitWithRom\<close> (not in the
  source files covered here) remembers the ROM (spec 4.3).\<close>

definition InitWithRom :: "LSN_ROM \<Rightarrow> CMapper094 \<Rightarrow> CMapper094" where
  "InitWithRom rRom m = m\<lparr>m_prRom := rRom, m_ui8PgmBank := 0, m_ui8Mask := 0b11100\<rparr>"

text \<open>\<open>CMapper094::SelectBank\<close>.  The divisor \<open>vPrgRom.size() / 0x4000\<close> is not checked
  by the code; the remainder by zero is undefined behaviour in C++ and is \<open>None\<close> here.
  The left operand is promoted to \<open>size_t\<close>, the result is stored into a \<open>uint8_t\<close>.\<close>

definition SelectBank :: "CMapper094 \<Rightarrow> uint8_t \<Rightarrow> CMapper094 option" where
  "SelectBank pmThis ui8Val =
     (let divisor = length (vPrgRom (m_prRom pmThis)) div 0x4000 in
      if divisor = 0 then None
      else Some (pmThis\<lparr>m_ui8PgmBank :=
                   word_of_nat (unat (drop_bit 2 (ui8Val AND m_ui8Mask pmThis)) mod divisor)\<rparr>))"











section \<open>The 6502 core (Src/Cpu/LSNCpu6502.cpp, Src/Cpu/LSNCpu6502.h)\<close>

subsection \<open>Data\<close>

text \<open>\<open>LSN_VECTORS\<close> of the header, with the addresses it gives.\<close>

datatype LSN_VECTORS = LSN_V_NMI | LSN_V_RESET | LSN_V_IRQ_BRK


text \<open>The tick handlers \<open>m_pfTickFunc\<close> can point to.  The .cpp names
  \<open>Tick_NextInstructionStd\<close> and \<open>Tick_Dma<LSN_DS_IDLE, false>\<close>; the other
  enumerators of the DMA state are declared outside the source files covered here.\<close>

datatype LSN_DMA_STATES = LSN_DS_IDLE | LSN_DS_other nat

datatype PfTicks = Tick_NextInstructionStd | Tick_Dma LSN_DMA_STATES bool

text \<open>The micro-step functions an instruction's handler array can point to: the ones
  modelled below, and \<open>PfCycle_other\<close> for the rest.  Template arguments are constructor
  arguments.\<close>

datatype PfCycle =
    Fetch_Opcode_IncPc_Phi2_fn
  | Jam_fn
  | Jam_Phi2_fn
  | SelectBrkVectors_fn
  | SetBrkFlags_fn
  | Push_S_Phi2_fn uint8_t
  | Ane_IncPc_BeginInst_fn
  | Lxa_IncPc_BeginInst_fn
  | Sha_Phi2_fn bool
  | Shs_Phi2_fn bool
  | Shx_Phi2_fn bool
  | Shy_Phi2_fn bool
  | PfCycle_other nat

record LSN_REGISTERS =
  ui8A :: uint8_t
  ui8X :: uint8_t
  ui8Y :: uint8_t
  ui8S :: uint8_t
  ui8Status :: uint8_t
  ui16Pc :: uint16_t

text \<open>The members of \<open>CCpu6502\<close> (and of its base \<open>CCpuBase\<close>) that the functions below
  read or write.  \<open>m_pbBus\<close> stands for everything behind the bus pointer: the bus, the
  memory and the devices, the mapper included.  \<open>m_pfCurInstruction\<close> points to the handler
  array of the current instruction.  The unions \<open>m_ui16Address\<close>/\<open>m_ui8Address[2]\<close>,
  \<open>m_ui16Pointer\<close>/\<open>m_ui8Pointer[2]\<close> and \<open>ui16Pc\<close>/\<open>ui8Pc[2]\<close> are 16-bit words whose
  bytes are read with \<open>byte0\<close> and \<open>byte1\<close> (little-endian, as on the x86 target).\<close>

record 'x CCpu6502 =
  m_pbBus :: 'x
  m_pfTickFunc :: PfTicks
  m_pfTickFuncCopy :: PfTicks
  m_pfCurInstruction :: "nat \<Rightarrow> PfCycle"
  m_rRegs :: LSN_REGISTERS
  m_ui64CycleCount :: uint64_t
  m_ui16OpCode :: uint16_t
  m_ui16PcModify :: uint16_t
  m_ui16Address :: uint16_t
  m_ui16Pointer :: uint16_t
  m_ui16Target :: uint16_t
  m_ui16DmaAddress :: uint16_t
  m_vBrkVector :: LSN_VECTORS
  m_ui8FuncIndex :: uint8_t
  m_ui8Operand :: uint8_t
  m_bBoundaryCrossed :: bool
  m_bPushB :: bool
  m_bHandleNmi :: bool
  m_bHandleIrq :: bool
  m_bIsReset :: bool
  m_bAllowWritingToPc :: bool
  m_bDetectedNmi :: bool
  m_bLastNmiStatusLine :: bool
  m_bNmiStatusLine :: bool
  m_bIrqStatusLine :: bool
  m_bIrqSeenLowPhi2 :: bool
  m_bIrqStatusPhi1Flag :: bool
  m_bDmaGo :: bool

definition byte0 :: "uint16_t \<Rightarrow> uint8_t" where
  "byte0 w = ucast w"

definition byte1 :: "uint16_t \<Rightarrow> uint8_t" where
  "byte1 w = ucast (drop_bit 8 w)"

text \<open>The parts of the program that are outside the source files covered here, as
  parameters:
  \<^item> \<open>LSN_CPU_VERIFY\<close>: the build switch of the verification harness;
  \<^item> \<open>bus_Read\<close>, \<open>bus_Write\<close>: \<open>CCpuBus::Read\<close> and \<open>CCpuBus::Write\<close> with the installed
    handlers.  A handler can reach the CPU through its public interface only:
    \<open>Nmi\<close>/\<open>ClearNmi\<close> and \<open>Irq\<close>/\<open>ClearIrq\<close> set the two status lines, so a bus access gets
    the two lines and returns them; a write can also be a write to the DMA register, whose
    handler \<open>Write4014\<close> calls \<open>BeginDma\<close> with the written value;
  \<^item> \<open>mapper_Tick\<close>: \<open>m_pmbMapper->Tick()\<close>, which can drive the IRQ line;
  \<^item> \<open>m_iInstructionSet\<close>: the table of handler arrays (LSNCycleFuncs.inl);
  \<^item> \<open>BeginInst\<close>: the parameterless \<open>BeginInst()\<close> of the 2024 sources;
  \<^item> \<open>LSN_PUSH\<close>: the stack-push macro, with the template's stack offset and the value;
  \<^item> \<open>other_PfCycle\<close>: the micro-step functions not modelled here;
  \<^item> \<open>Tick_Dma_body\<close>: the DMA tick handlers.\<close>

record 'x env =
  LSN_CPU_VERIFY :: bool
  bus_Read :: "'x \<Rightarrow> bool \<Rightarrow> bool \<Rightarrow> uint16_t \<Rightarrow> uint8_t \<times> 'x \<times> bool \<times> bool"
  bus_Write :: "'x \<Rightarrow> bool \<Rightarrow> bool \<Rightarrow> uint16_t \<Rightarrow> uint8_t \<Rightarrow> 'x \<times> bool \<times> bool \<times> uint8_t option"
  mapper_Tick :: "'x \<Rightarrow> bool \<Rightarrow> 'x \<times> bool"
  m_iInstructionSet :: "uint16_t \<Rightarrow> nat \<Rightarrow> PfCycle"
  BeginInst :: "'x CCpu6502 \<Rightarrow> 'x CCpu6502"
  LSN_PUSH :: "uint8_t \<Rightarrow> uint8_t \<Rightarrow> 'x CCpu6502 \<Rightarrow> 'x CCpu6502"
  other_PfCycle :: "nat \<Rightarrow> 'x CCpu6502 \<Rightarrow> 'x CCpu6502"
  Tick_Dma_body :: "LSN_DMA_STATES \<Rightarrow> bool \<Rightarrow> 'x CCpu6502 \<Rightarrow> 'x CCpu6502"

subsection \<open>Status flags\<close>

text \<open>Modelled from the spec: the flag accessors \<open>C()\<close>, \<open>Z()\<close>, \<open>I()\<close>, \<open>D()\<close>, \<open>X()\<close>,
  \<open>M()\<close>, \<open>V()\<close>, \<open>N()\<close> and the template \<open>SetBit\<close> are declared outside the source files covered here.  Spec 3 gives
  the bit layout C=0, Z=1, I=2, D=3, B=4, U=5, V=6, N=7, which is also \<open>LSN_STATUS_FLAGS\<close> of
  the header; \<open>X()\<close> is the break bit and \<open>M()\<close> the reserved bit (\<open>Php\<close> sets \<open>X() | M()\<close>
  under the comment "with Break and Reserved set").  \<open>SetBit<mask>(v, c)\<close> sets the bits of
  the mask in \<open>v\<close> when \<open>c\<close> holds and clears them otherwise.\<close>

definition C_flag :: uint8_t where "C_flag = 0x01"
definition Z_flag :: uint8_t where "Z_flag = 0x02"
definition I_flag :: uint8_t where "I_flag = 0x04"
definition D_flag :: uint8_t where "D_flag = 0x08"
definition X_flag :: uint8_t where "X_flag = 0x10"
definition M_flag :: uint8_t where "M_flag = 0x20"
definition V_flag :: uint8_t where "V_flag = 0x40"
definition N_flag :: uint8_t where "N_flag = 0x80"

definition SetBit :: "uint8_t \<Rightarrow> uint8_t \<Rightarrow> bool \<Rightarrow> uint8_t" where
  "SetBit msk v c = (if c then v OR msk else v AND NOT msk)"

definition set_status :: "uint8_t \<Rightarrow> bool \<Rightarrow> 'x CCpu6502 \<Rightarrow> 'x CCpu6502" where
  "set_status msk c s = s\<lparr>m_rRegs := (m_rRegs s)\<lparr>ui8Status := SetBit msk (ui8Status (m_rRegs s)) c\<rparr>\<rparr>"

subsection \<open>Public interface\<close>

text \<open>\<open>CCpu6502::BeginDma\<close>; \<open>m_pfTickFuncCopy\<close> is left as it is.\<close>

definition BeginDma :: "uint8_t \<Rightarrow> 'x CCpu6502 \<Rightarrow> 'x CCpu6502" where
  "BeginDma ui8Val s =
     s\<lparr>m_pfTickFunc := Tick_Dma LSN_DS_IDLE False,
       m_ui16DmaAddress := push_bit 8 (ucast ui8Val),
       m_bDmaGo := False\<rparr>"

text \<open>\<open>CCpu6502::Write4014\<close> of the header: the write handler of the DMA register.\<close>

definition Write4014 :: "uint8_t \<Rightarrow> 'x CCpu6502 \<Rightarrow> 'x CCpu6502" where
  "Write4014 ui8Val pvParm0 = BeginDma ui8Val pvParm0"

subsection \<open>The macros of the micro-step functions\<close>

text \<open>Modelled from the spec: the macros \<open>LSN_INSTR_START_PHI2_READ\<close>,
  \<open>LSN_INSTR_START_PHI2_WRITE\<close>, \<open>LSN_NEXT_FUNCTION\<close>, \<open>LSN_NEXT_FUNCTION_BY\<close>,
  \<open>LSN_CHECK_INTERRUPTS\<close>, \<open>LSN_FINISH_INST\<close> and \<open>LSN_UPDATE_PC\<close> are defined outside the source files
  covered here
  (\<open>LSN_INSTR_START_PHI1\<close>, \<open>LSN_INSTR_END_PHI1\<close> and \<open>LSN_INSTR_END_PHI2\<close> bracket a micro-step
  and have no effect on the members modelled).  Spec 4.1: a micro-step performs at most one
  bus operation and then advances the index; at the polling point, if \<open>nmi_detected\<close> then
  \<open>handle_nmi = true\<close>, else if \<open>irq_status_phi1 && !I\<close> then \<open>handle_irq = true\<close>; the PC
  moves by the scheduled amount unless writing to PC is suppressed.  That
  \<open>LSN_FINISH_INST\<close> advances the index is also what the comment in
  \<open>Read_PtrOrAddr_To_Operand_BoundarySkip_Phi2\<close> says, and \<open>LSN_UPDATE_PC\<close> is the forward
  counterpart of the guarded subtraction written out in \<open>Jam\<close>.\<close>

definition LSN_INSTR_START_PHI2_READ ::
  "'x env \<Rightarrow> uint16_t \<Rightarrow> 'x CCpu6502 \<Rightarrow> uint8_t \<times> 'x CCpu6502" where
  "LSN_INSTR_START_PHI2_READ E addr s =
     (case bus_Read E (m_pbBus s) (m_bNmiStatusLine s) (m_bIrqStatusLine s) addr of
        (v, x, nmi, irq) \<Rightarrow> (v, s\<lparr>m_pbBus := x, m_bNmiStatusLine := nmi, m_bIrqStatusLine := irq\<rparr>))"

definition LSN_INSTR_START_PHI2_WRITE ::
  "'x env \<Rightarrow> uint16_t \<Rightarrow> uint8_t \<Rightarrow> 'x CCpu6502 \<Rightarrow> 'x CCpu6502" where
  "LSN_INSTR_START_PHI2_WRITE E addr val s =
     (case bus_Write E (m_pbBus s) (m_bNmiStatusLine s) (m_bIrqStatusLine s) addr val of
        (x, nmi, irq, dma) \<Rightarrow>
          (let s1 = s\<lparr>m_pbBus := x, m_bNmiStatusLine := nmi, m_bIrqStatusLine := irq\<rparr>
           in case dma of None \<Rightarrow> s1 | Some v \<Rightarrow> Write4014 v s1))"

definition LSN_NEXT_FUNCTION_BY :: "uint8_t \<Rightarrow> 'x CCpu6502 \<Rightarrow> 'x CCpu6502" where
  "LSN_NEXT_FUNCTION_BY amt s = s\<lparr>m_ui8FuncIndex := m_ui8FuncIndex s + amt\<rparr>"

definition LSN_NEXT_FUNCTION :: "'x CCpu6502 \<Rightarrow> 'x CCpu6502" where
  "LSN_NEXT_FUNCTION s = LSN_NEXT_FUNCTION_BY 1 s"

definition LSN_CHECK_INTERRUPTS :: "'x CCpu6502 \<Rightarrow> 'x CCpu6502" where
  "LSN_CHECK_INTERRUPTS s =
     (if m_bDetectedNmi s then s\<lparr>m_bHandleNmi := True\<rparr>
      else if m_bIrqStatusPhi1Flag s \<and> ui8Status (m_rRegs s) AND I_flag = 0
           then s\<lparr>m_bHandleIrq := True\<rparr>
      else s)"

definition LSN_FINISH_INST :: "bool \<Rightarrow> 'x CCpu6502 \<Rightarrow> 'x CCpu6502" where
  "LSN_FINISH_INST check s = LSN_NEXT_FUNCTION (if check then LSN_CHECK_INTERRUPTS s else s)"

definition LSN_UPDATE_PC :: "'x CCpu6502 \<Rightarrow> 'x CCpu6502" where
  "LSN_UPDATE_PC s =
     (let s1 = (if m_bAllowWritingToPc s
                then s\<lparr>m_rRegs := (m_rRegs s)\<lparr>ui16Pc := ui16Pc (m_rRegs s) + m_ui16PcModify s\<rparr>\<rparr>
                else s)
      in s1\<lparr>m_ui16PcModify := 0\<rparr>)"

subsection \<open>Micro-step functions\<close>

text \<open>\<open>CCpu6502::Fetch_Opcode_IncPc_Phi2\<close>.\<close>

definition Fetch_Opcode_IncPc_Phi2 :: "'x env \<Rightarrow> 'x CCpu6502 \<Rightarrow> 'x CCpu6502" where
  "Fetch_Opcode_IncPc_Phi2 E s =
     (case LSN_INSTR_START_PHI2_READ E (ui16Pc (m_rRegs s)) s of
        (ui8Op, s1) \<Rightarrow>
          (let (ui8Op2, s2) =
                 (if LSN_CPU_VERIFY E then (ui8Op, s1\<lparr>m_ui16PcModify := 1\<rparr>)
                  else if m_bHandleNmi s1 \<or> m_bHandleIrq s1 \<or> m_bIsReset s1
                       then (0, s1\<lparr>m_ui16PcModify := 0, m_bAllowWritingToPc := False\<rparr>)
                       else (ui8Op, s1\<lparr>m_ui16PcModify := 1\<rparr>));
               s3 = s2\<lparr>m_ui16OpCode := ucast ui8Op2\<rparr>;
               s4 = s3\<lparr>m_pfCurInstruction := m_iInstructionSet E (m_ui16OpCode s3)\<rparr>
           in LSN_NEXT_FUNCTION s4))"

text \<open>\<open>CCpu6502::Jam\<close>: \<open>ui16Pc += uint16_t( -int16_t( m_ui16PcModify ) )\<close> is a 16-bit
  subtraction.\<close>

definition Jam :: "'x CCpu6502 \<Rightarrow> 'x CCpu6502" where
  "Jam s =
     (let s1 = (if m_bAllowWritingToPc s
                then s\<lparr>m_rRegs := (m_rRegs s)\<lparr>ui16Pc := ui16Pc (m_rRegs s) + (- m_ui16PcModify s)\<rparr>\<rparr>
                else s);
          s2 = s1\<lparr>m_ui16PcModify := 0\<rparr>
      in LSN_NEXT_FUNCTION s2)"

text \<open>\<open>CCpu6502::Jam_Phi2\<close>: the byte read is dropped.\<close>

definition Jam_Phi2 :: "'x env \<Rightarrow> 'x CCpu6502 \<Rightarrow> 'x CCpu6502" where
  "Jam_Phi2 E s =
     (case LSN_INSTR_START_PHI2_READ E (ui16Pc (m_rRegs s) + 1) s of
        (ui8Op, s1) \<Rightarrow> LSN_NEXT_FUNCTION_BY (- 1) s1)"

text \<open>\<open>CCpu6502::SelectBrkVectors\<close>.\<close>

definition SelectBrkVectors :: "'x env \<Rightarrow> 'x CCpu6502 \<Rightarrow> 'x CCpu6502" where
  "SelectBrkVectors E s =
     (let s3 =
        (if LSN_CPU_VERIFY E then s\<lparr>m_vBrkVector := LSN_V_IRQ_BRK, m_bPushB := True\<rparr>
         else
           (let s1 =
              (if m_bIsReset s
                 then s\<lparr>m_vBrkVector := LSN_V_RESET, m_bPushB := False, m_bIsReset := False\<rparr>
               else if m_bDetectedNmi s
                 then s\<lparr>m_vBrkVector := LSN_V_NMI, m_bPushB := False\<rparr>
               else if m_bHandleIrq s
                 then s\<lparr>m_vBrkVector := LSN_V_IRQ_BRK, m_bPushB := False\<rparr>
               else s\<lparr>m_vBrkVector := LSN_V_IRQ_BRK, m_bPushB := True\<rparr>);
                s2 =
              (if m_bDetectedNmi s1
                 then s1\<lparr>m_bHandleNmi := False, m_bDetectedNmi := False, m_bNmiStatusLine := False\<rparr>
               else s1)
            in s2\<lparr>m_bHandleIrq := False\<rparr>))
      in LSN_NEXT_FUNCTION s3)"

text \<open>\<open>CCpu6502::SetBrkFlags\<close>.\<close>

definition SetBrkFlags :: "'x CCpu6502 \<Rightarrow> 'x CCpu6502" where
  "SetBrkFlags s =
     (let s1 = set_status I_flag True s;
          s2 = set_status X_flag False s1;
          s3 = s2\<lparr>m_bAllowWritingToPc := True\<rparr>
      in LSN_NEXT_FUNCTION s3)"

text \<open>\<open>CCpu6502::Push_S_Phi2<_i8SOff>\<close>; \<open>Push_S_byte\<close> is the argument it gives to
  \<open>LSN_PUSH\<close>.\<close>

definition Push_S_byte :: "'x CCpu6502 \<Rightarrow> uint8_t" where
  "Push_S_byte s =
     (if m_bPushB s then ui8Status (m_rRegs s) OR X_flag else ui8Status (m_rRegs s))"

definition Push_S_Phi2 :: "'x env \<Rightarrow> uint8_t \<Rightarrow> 'x CCpu6502 \<Rightarrow> 'x CCpu6502" where
  "Push_S_Phi2 E i8SOff s = LSN_NEXT_FUNCTION (LSN_PUSH E i8SOff (Push_S_byte s) s)"

text \<open>\<open>CCpu6502::Ane_IncPc_BeginInst\<close>.\<close>

definition Ane_IncPc_BeginInst :: "'x env \<Rightarrow> 'x CCpu6502 \<Rightarrow> 'x CCpu6502" where
  "Ane_IncPc_BeginInst E s =
     (let s1 = BeginInst E s;
          s2 = LSN_UPDATE_PC s1;
          s3 = s2\<lparr>m_rRegs := (m_rRegs s2)\<lparr>ui8A :=
                  (ui8A (m_rRegs s2) OR 0xEE) AND ui8X (m_rRegs s2) AND m_ui8Operand s2\<rparr>\<rparr>;
          s4 = set_status N_flag (ui8A (m_rRegs s3) AND 0x80 \<noteq> 0) s3
      in set_status Z_flag (ui8A (m_rRegs s4) = 0) s4)"

text \<open>\<open>CCpu6502::Lxa_IncPc_BeginInst\<close>: \<open>ui8A = ui8X = ...\<close> stores the value in both.\<close>

definition Lxa_IncPc_BeginInst :: "'x env \<Rightarrow> 'x CCpu6502 \<Rightarrow> 'x CCpu6502" where
  "Lxa_IncPc_BeginInst E s =
     (let s1 = BeginInst E s;
          s2 = LSN_UPDATE_PC s1;
          v = (if LSN_CPU_VERIFY E
               then (ui8A (m_rRegs s2) OR 0xEE) AND m_ui8Operand s2
               else (ui8A (m_rRegs s2) OR 0xFF) AND m_ui8Operand s2);
          s3 = s2\<lparr>m_rRegs := (m_rRegs s2)\<lparr>ui8X := v, ui8A := v\<rparr>\<rparr>;
          s4 = set_status N_flag (ui8A (m_rRegs s3) AND 0x80 \<noteq> 0) s3
      in set_status Z_flag (ui8A (m_rRegs s4) = 0) s4)"

text \<open>The store of \<open>Sha_Phi2\<close>, \<open>Shs_Phi2\<close>, \<open>Shx_Phi2\<close> and \<open>Shy_Phi2\<close>, which differ in the
  register term only: \<open>ea\<close> is \<open>m_ui16Address\<close> or \<open>m_ui16Pointer\<close> (the template argument),
  \<open>reg\<close> the register term.  \<open>ui16Val\<close> is a \<open>uint16_t\<close>, the bytes are promoted before
  \<open>+ 1\<close> and \<open>&\<close>; the address is \<open>m_ui8Address[0] | ui16Val << 8\<close>, where \<open><<\<close> binds
  tighter than \<open>|\<close>; the bus takes a 16-bit address and an 8-bit value.\<close>

definition sh_store :: "'x env \<Rightarrow> uint16_t \<Rightarrow> uint8_t \<Rightarrow> 'x CCpu6502 \<Rightarrow> 'x CCpu6502" where
  "sh_store E ea reg s =
     (if m_bBoundaryCrossed s
      then (let ui16Val = (ucast (byte1 ea) AND ucast reg :: uint16_t)
            in LSN_INSTR_START_PHI2_WRITE E (ucast (byte0 ea) OR push_bit 8 ui16Val) (ucast ui16Val) s)
      else (let ui16Val = ((ucast (byte1 ea) + 1) AND ucast reg :: uint16_t)
            in LSN_INSTR_START_PHI2_WRITE E ea (ucast ui16Val) s))"

definition Sha_Phi2 :: "'x env \<Rightarrow> bool \<Rightarrow> 'x CCpu6502 \<Rightarrow> 'x CCpu6502" where
  "Sha_Phi2 E bToAddr s =
     LSN_FINISH_INST True
       (sh_store E (if bToAddr then m_ui16Address s else m_ui16Pointer s)
          (ui8A (m_rRegs s) AND ui8X (m_rRegs s)) s)"

definition Shs_Phi2 :: "'x env \<Rightarrow> bool \<Rightarrow> 'x CCpu6502 \<Rightarrow> 'x CCpu6502" where
  "Shs_Phi2 E bToAddr s =
     (let s1 = s\<lparr>m_rRegs := (m_rRegs s)\<lparr>ui8S := ui8A (m_rRegs s) AND ui8X (m_rRegs s)\<rparr>\<rparr>
      in LSN_FINISH_INST True
           (sh_store E (if bToAddr then m_ui16Address s1 else m_ui16Pointer s1)
              (ui8A (m_rRegs s1) AND ui8X (m_rRegs s1)) s1))"

definition Shx_Phi2 :: "'x env \<Rightarrow> bool \<Rightarrow> 'x CCpu6502 \<Rightarrow> 'x CCpu6502" where
  "Shx_Phi2 E bToAddr s =
     LSN_FINISH_INST True
       (sh_store E (if bToAddr then m_ui16Address s else m_ui16Pointer s) (ui8X (m_rRegs s)) s)"

definition Shy_Phi2 :: "'x env \<Rightarrow> bool \<Rightarrow> 'x CCpu6502 \<Rightarrow> 'x CCpu6502" where
  "Shy_Phi2 E bToAddr s =
     LSN_FINISH_INST True
       (sh_store E (if bToAddr then m_ui16Address s else m_ui16Pointer s) (ui8Y (m_rRegs s)) s)"

text \<open>The store as the spec words it: the value is the register term and the high byte of
  the effective address plus one (without the plus one after a page crossing, as the
  code has it), and after a page crossing the stored value takes the place of the high
  byte of the address.\<close>

definition spec_SH_value :: "bool \<Rightarrow> uint16_t \<Rightarrow> uint8_t \<Rightarrow> uint8_t" where
  "spec_SH_value crossed ea reg =
     (if crossed then reg AND byte1 ea else reg AND (byte1 ea + 1))"

definition spec_SH_address :: "bool \<Rightarrow> uint16_t \<Rightarrow> uint8_t \<Rightarrow> uint16_t" where
  "spec_SH_address crossed ea reg =
     (if crossed then ucast (byte0 ea) OR push_bit 8 (ucast (spec_SH_value crossed ea reg)) else ea)"

subsection \<open>The two half-cycle entry points\<close>

text \<open>The call \<open>(this->*m_pfCurInstruction[m_ui8FuncIndex])()\<close>.\<close>

fun call_PfCycle :: "'x env \<Rightarrow> PfCycle \<Rightarrow> 'x CCpu6502 \<Rightarrow> 'x CCpu6502" where
  "call_PfCycle E Fetch_Opcode_IncPc_Phi2_fn s = Fetch_Opcode_IncPc_Phi2 E s"
| "call_PfCycle E Jam_fn s = Jam s"
| "call_PfCycle E Jam_Phi2_fn s = Jam_Phi2 E s"
| "call_PfCycle E SelectBrkVectors_fn s = SelectBrkVectors E s"
| "call_PfCycle E SetBrkFlags_fn s = SetBrkFlags s"
| "call_PfCycle E (Push_S_Phi2_fn off) s = Push_S_Phi2 E off s"
| "call_PfCycle E Ane_IncPc_BeginInst_fn s = Ane_IncPc_BeginInst E s"
| "call_PfCycle E Lxa_IncPc_BeginInst_fn s = Lxa_IncPc_BeginInst E s"
| "call_PfCycle E (Sha_Phi2_fn b) s = Sha_Phi2 E b s"
| "call_PfCycle E (Shs_Phi2_fn b) s = Shs_Phi2 E b s"
| "call_PfCycle E (Shx_Phi2_fn b) s = Shx_Phi2 E b s"
| "call_PfCycle E (Shy_Phi2_fn b) s = Shy_Phi2 E b s"
| "call_PfCycle E (PfCycle_other n) s = other_PfCycle E n s"

text \<open>Modelled from the spec: the tick handlers are declared in the header and defined
  outside the source files covered here.  Spec 4.1: a tick executes one micro-step function, which is one entry of
  the per-opcode array at the current index; spec 4.4: during a transfer the DMA tick runs
  instead.\<close>

definition Tick_NextInstructionStd_body :: "'x env \<Rightarrow> 'x CCpu6502 \<Rightarrow> 'x CCpu6502" where
  "Tick_NextInstructionStd_body E s =
     call_PfCycle E (m_pfCurInstruction s (unat (m_ui8FuncIndex s))) s"

fun call_PfTicks :: "'x env \<Rightarrow> PfTicks \<Rightarrow> 'x CCpu6502 \<Rightarrow> 'x CCpu6502" where
  "call_PfTicks E Tick_NextInstructionStd s = Tick_NextInstructionStd_body E s"
| "call_PfTicks E (Tick_Dma st b) s = Tick_Dma_body E st b s"

text \<open>The call \<open>m_pmbMapper->Tick()\<close>.\<close>

definition call_mapper_Tick :: "'x env \<Rightarrow> 'x CCpu6502 \<Rightarrow> 'x CCpu6502" where
  "call_mapper_Tick E s =
     (case mapper_Tick E (m_pbBus s) (m_bIrqStatusLine s) of
        (x, irq) \<Rightarrow> s\<lparr>m_pbBus := x, m_bIrqStatusLine := irq\<rparr>)"

text \<open>\<open>CCpu6502::Tick\<close>, the phi1 entry point.\<close>

definition Tick :: "'x env \<Rightarrow> 'x CCpu6502 \<Rightarrow> 'x CCpu6502" where
  "Tick E s =
     (let s1 = s\<lparr>m_bIrqStatusPhi1Flag := m_bIrqSeenLowPhi2 s\<rparr>;
          s2 = s1\<lparr>m_bIrqSeenLowPhi2 := False\<rparr>;
          s3 = (if LSN_CPU_VERIFY E then s2 else call_mapper_Tick E s2)
      in call_PfTicks E (m_pfTickFunc s3) s3)"

text \<open>\<open>CCpu6502::TickPhi2\<close>, the phi2 entry point.\<close>

definition TickPhi2 :: "'x env \<Rightarrow> 'x CCpu6502 \<Rightarrow> 'x CCpu6502" where
  "TickPhi2 E s =
     (let s1 = call_PfTicks E (m_pfTickFunc s) s;
          s2 = s1\<lparr>m_bDetectedNmi := (m_bDetectedNmi s1 \<or> (\<not> m_bLastNmiStatusLine s1 \<and> m_bNmiStatusLine s1))\<rparr>;
          s3 = s2\<lparr>m_bLastNmiStatusLine := m_bNmiStatusLine s2\<rparr>;
          s4 = s3\<lparr>m_bIrqSeenLowPhi2 := (m_bIrqSeenLowPhi2 s3 \<or> m_bIrqStatusLine s3)\<rparr>
      in s4\<lparr>m_ui64CycleCount := m_ui64CycleCount s4 + 1\<rparr>)"

text \<open>One master cycle is \<open>Tick\<close> then \<open>TickPhi2\<close>; \<open>cycles n\<close> runs \<open>n\<close> of them.\<close>

definition master_cycle :: "'x env \<Rightarrow> 'x CCpu6502 \<Rightarrow> 'x CCpu6502" where
  "master_cycle E s = TickPhi2 E (Tick E s)"

fun cycles :: "nat \<Rightarrow> 'x env \<Rightarrow> 'x CCpu6502 \<Rightarrow> 'x CCpu6502" where
  "cycles 0 E s = s"
| "cycles (Suc n) E s = cycles n E (master_cycle E s)"


subsection \<open>The CPU's memory map\<close>

text \<open>The loop of \<open>ApplyMemoryMap\<close> that installs a read and a write handler per address.\<close>

definition for_SetReadWriteFunc ::
  "nat \<Rightarrow> nat \<Rightarrow> access_func \<Rightarrow> access_func \<Rightarrow> (nat \<Rightarrow> uint16_t) \<Rightarrow> bus \<Rightarrow> bus" where
  "for_SetReadWriteFunc lo hi fr fw g b =
     fold (\<lambda>I b. SetWriteFunc (SetReadFunc b (word_of_nat I) fr (g I)) (word_of_nat I) fw (g I))
       [lo..<hi] b"

text \<open>\<open>CCpu6502::ApplyMemoryMap\<close>.  The constants \<open>LSN_CPU_START\<close>, \<open>LSN_CPU_FULL_SIZE\<close>,
  \<open>LSN_INTERNAL_RAM\<close> and \<open>LSN_MEM_FULL_SIZE\<close> are declared outside the source
  files covered here and are parameters.\<close>

definition ApplyMemoryMap :: "nat \<Rightarrow> nat \<Rightarrow> nat \<Rightarrow> nat \<Rightarrow> bus \<Rightarrow> bus" where
  "ApplyMemoryMap LSN_CPU_START LSN_CPU_FULL_SIZE LSN_INTERNAL_RAM LSN_MEM_FULL_SIZE b =
     (let b1 = for_SetReadWriteFunc LSN_CPU_START (LSN_CPU_START + LSN_CPU_FULL_SIZE) StdRead StdWrite
                 (\<lambda>I. word_of_nat (((I - LSN_CPU_START) mod LSN_INTERNAL_RAM) + LSN_CPU_START)) b;
          b2 = for_SetReadWriteFunc 0x4000 0x4015 NoRead NoWrite (\<lambda>I. word_of_nat I) b1;
          b3 = for_SetReadWriteFunc 0x4018 LSN_MEM_FULL_SIZE NoRead NoWrite (\<lambda>I. word_of_nat I) b2;
          b4 = SetReadFunc b3 0x4014 NoRead 0x4014;
          b5 = SetWriteFunc b4 0x4014 Write4014_func 0x4014;
          b6 = SetReadFunc b5 0x4016 Read4016_func 0;
          b7 = SetWriteFunc b6 0x4016 Write4016_func 0;
          b8 = SetReadFunc b7 0x4017 Read4017_func 0
      in SetFloatMask b8 0x4015 0x00)"

text \<open>A bus write to a slot that holds \<open>Write4014\<close> calls it; the other handlers are outside
  the CPU core modelled here (\<open>Write4016\<close> is modelled below, on the controller members).\<close>

definition cpu_bus_write :: "bus \<Rightarrow> uint16_t \<Rightarrow> uint8_t \<Rightarrow> 'x CCpu6502 \<Rightarrow> 'x CCpu6502" where
  "cpu_bus_write b a v s =
     (case writeFuncs b a of
        (Write4014_func, p) \<Rightarrow> Write4014 v s
      | _ \<Rightarrow> s)"

subsection \<open>Controller port 0x4016 (the handlers of the header)\<close>

text \<open>The controller members of \<open>CCpu6502\<close>.  The three arrays have 8 entries and are only
  indexed by the constant 0 here; they are functions from the index.  \<open>m_pipPoller\<close> is a
  pointer that may be null; \<open>CInputPoller::PollPort\<close> is outside the source files covered
  here and is a parameter,
  the snapshot of the buttons of a port.\<close>

record 'p controller_ports =
  m_pipPoller :: "'p option"
  m_ui8Inputs :: "nat \<Rightarrow> uint8_t"
  m_ui8InputsState :: "nat \<Rightarrow> uint8_t"
  m_ui8InputsPoll :: "nat \<Rightarrow> uint8_t"

text \<open>\<open>CCpu6502::Read4016\<close>: the comparison gives a \<open>bool\<close>, stored as 0 or 1.\<close>

definition Read4016 :: "'p controller_ports \<Rightarrow> uint8_t \<times> 'p controller_ports" where
  "Read4016 pcThis =
     (let ui8Ret = (if m_ui8InputsState pcThis 0 AND 0x80 \<noteq> 0 then 1 else 0)
      in (ui8Ret, pcThis\<lparr>m_ui8InputsState :=
                     (m_ui8InputsState pcThis)(0 := push_bit 1 (m_ui8InputsState pcThis 0))\<rparr>))"

text \<open>\<open>CCpu6502::Write4016\<close>.\<close>

definition Write4016 :: "('p \<Rightarrow> nat \<Rightarrow> uint8_t) \<Rightarrow> uint8_t \<Rightarrow> 'p controller_ports \<Rightarrow> 'p controller_ports" where
  "Write4016 PollPort ui8Val pcThis =
     (let c1 = pcThis\<lparr>m_ui8Inputs := (m_ui8Inputs pcThis)
                 (0 := (m_ui8Inputs pcThis 0 AND 0b11111000) OR (ui8Val AND 0b00000111))\<rparr>;
          c2 = (case m_pipPoller c1 of
                  Some p \<Rightarrow> c1\<lparr>m_ui8InputsPoll := (m_ui8InputsPoll c1)(0 := PollPort p 0)\<rparr>
                | None \<Rightarrow> c1\<lparr>m_ui8InputsPoll := (m_ui8InputsPoll c1)(0 := 0)\<rparr>)
      in c2\<lparr>m_ui8InputsState := (m_ui8InputsState c2)(0 := m_ui8InputsPoll c2 0)\<rparr>)"

text \<open>\<open>n\<close> successive reads of 0x4016, with the bytes they return.\<close>

fun reads4016 :: "nat \<Rightarrow> 'p controller_ports \<Rightarrow> uint8_t list \<times> 'p controller_ports" where
  "reads4016 0 c = ([], c)"
| "reads4016 (Suc n) c =
     (case Read4016 c of (r, c1) \<Rightarrow> (case reads4016 n c1 of (rs, c2) \<Rightarrow> (r # rs, c2)))"

subsection \<open>A concrete machine for the examples\<close>

text \<open>A bus that is a flat memory with a tape of its accesses (address, value, is-read),
  as the \<open>read_write_log\<close> of spec 4.2; a write to 0x4014 reaches the DMA handler.  The
  mapper does nothing, every opcode has the same handler array, \<open>BeginInst\<close> restarts the
  index and the push writes to the stack page.\<close>

record tape_bus =
  mem :: "uint16_t \<Rightarrow> uint8_t"
  tape :: "(uint16_t \<times> uint8_t \<times> bool) list"

definition tape_env :: "bool \<Rightarrow> (nat \<Rightarrow> PfCycle) \<Rightarrow> tape_bus env" where
  "tape_env verify handlers =
     \<lparr>LSN_CPU_VERIFY = verify,
      bus_Read = (\<lambda>x nmi irq a. (mem x a, x\<lparr>tape := tape x @ [(a, mem x a, True)]\<rparr>, nmi, irq)),
      bus_Write = (\<lambda>x nmi irq a v.
         (x\<lparr>mem := (mem x)(a := v), tape := tape x @ [(a, v, False)]\<rparr>, nmi, irq,
          if a = 0x4014 then Some v else None)),
      mapper_Tick = (\<lambda>x irq. (x, irq)),
      m_iInstructionSet = (\<lambda>op. handlers),
      BeginInst = (\<lambda>s. s\<lparr>m_ui8FuncIndex := 0\<rparr>),
      LSN_PUSH = (\<lambda>off v s. s\<lparr>m_pbBus := (m_pbBus s)\<lparr>
         mem := (mem (m_pbBus s))(0x100 OR ucast (ui8S (m_rRegs s) + off) := v),
         tape := tape (m_pbBus s) @ [(0x100 OR ucast (ui8S (m_rRegs s) + off), v, False)]\<rparr>\<rparr>),
      other_PfCycle = (\<lambda>n s. s),
      Tick_Dma_body = (\<lambda>st b s. s)\<rparr>"

definition cpu0 :: "tape_bus CCpu6502" where
  "cpu0 =
     \<lparr>m_pbBus = \<lparr>mem = (\<lambda>a. 0xEA), tape = []\<rparr>,
      m_pfTickFunc = Tick_NextInstructionStd,
      m_pfTickFuncCopy = Tick_NextInstructionStd,
      m_pfCurInstruction = (\<lambda>i. PfCycle_other 0),
      m_rRegs = \<lparr>ui8A = 0, ui8X = 0, ui8Y = 0, ui8S = 0xFD, ui8Status = 0x24, ui16Pc = 0x8000\<rparr>,
      m_ui64CycleCount = 0,
      m_ui16OpCode = 0,
      m_ui16PcModify = 0,
      m_ui16Address = 0,
      m_ui16Pointer = 0,
      m_ui16Target = 0,
      m_ui16DmaAddress = 0,
      m_vBrkVector = LSN_V_IRQ_BRK,
      m_ui8FuncIndex = 0,
      m_ui8Operand = 0,
      m_bBoundaryCrossed = False,
      m_bPushB = False,
      m_bHandleNmi = False,
      m_bHandleIrq = False,
      m_bIsReset = False,
      m_bAllowWritingToPc = True,
      m_bDetectedNmi = False,
      m_bLastNmiStatusLine = False,
      m_bNmiStatusLine = False,
      m_bIrqStatusLine = False,
      m_bIrqSeenLowPhi2 = False,
      m_bIrqStatusPhi1Flag = False,
      m_bDmaGo = False\<rparr>"


subsection \<open>The JAM loop\<close>

text \<open>The CPU is at the \<open>Jam\<close> micro-step: the normal tick handler is active and the current
  entry of the handler array is \<open>Jam\<close>, followed by \<open>Jam_Phi2\<close>.\<close>

definition at_Jam :: "'x CCpu6502 \<Rightarrow> bool" where
  "at_Jam s =
     (m_pfTickFunc s = Tick_NextInstructionStd
      \<and> m_pfCurInstruction s (unat (m_ui8FuncIndex s)) = Jam_fn
      \<and> m_pfCurInstruction s (unat (m_ui8FuncIndex s + 1)) = Jam_Phi2_fn)"

text \<open>The state \<open>Tick\<close> hands to the micro-step: after the IRQ snapshot and the mapper's
  tick.\<close>

definition Tick_prologue :: "'x env \<Rightarrow> 'x CCpu6502 \<Rightarrow> 'x CCpu6502" where
  "Tick_prologue E s =
     (let s2 = s\<lparr>m_bIrqStatusPhi1Flag := m_bIrqSeenLowPhi2 s, m_bIrqSeenLowPhi2 := False\<rparr>
      in if LSN_CPU_VERIFY E then s2 else call_mapper_Tick E s2)"

definition jam_handlers :: "nat \<Rightarrow> PfCycle" where
  "jam_handlers i = (if i = 0 then Jam_fn else Jam_Phi2_fn)"

text \<open>A machine whose parts leave marks: the mapper's tick raises the IRQ line, and the
  micro-step records what it sees of the IRQ line, the phi1 snapshot and the phi2 latch in
  the operand byte and raises the NMI line.\<close>

definition probe_env :: "tape_bus env" where
  "probe_env =
     (tape_env False (\<lambda>i. PfCycle_other 0))
       \<lparr>mapper_Tick := (\<lambda>x irq. (x, True)),
        other_PfCycle := (\<lambda>n s. s\<lparr>m_ui8Operand :=
             (if m_bIrqStatusLine s then 1 else 0) + (if m_bIrqStatusPhi1Flag s then 2 else 0)
               + (if m_bIrqSeenLowPhi2 s then 4 else 0),
           m_bNmiStatusLine := True\<rparr>)\<rparr>"

section \<open>Mapper 094: the installed slots\<close>







lemma unat8_lt: "unat (a :: uint8_t) < 256"
  using unsigned_less [of a, where 'a = nat] by simp





lemma SelectBank_Some:
  assumes "0x4000 \<le> length (vPrgRom (m_prRom m))"
  shows "SelectBank m v = Some (m\<lparr>m_ui8PgmBank :=
            word_of_nat (unat (drop_bit 2 (v AND m_ui8Mask m)) mod (length (vPrgRom (m_prRom m)) div 0x4000))\<rparr>)"
proof -
  from assms have "0 < length (vPrgRom (m_prRom m)) div 0x4000"
    by (simp add: div_greater_zero_iff)
  then show ?thesis by (simp add: SelectBank_def Let_def)
qed


lemma bank_value_eq:
  "unat (word_of_nat (unat (y :: uint8_t) mod d) :: uint8_t) = unat y mod d"
proof -
  have "unat y mod d \<le> unat y" by (rule mod_less_eq_dividend)
  with unat8_lt [of y] have "unat y mod d < 256" by linarith
  then show ?thesis by (simp add: unat_of_nat take_bit_nat_eq_self)
qed











text \<open>Claim C10.  \<open>SelectBank\<close> stores \<open>((value & 0b11100) >> 2) % (PRG size / 0x4000)\<close>.
  When the PRG ROM has at least 0x4000 bytes the handler returns and the new bank register
  is strictly below the bank count, for every written value; when the PRG ROM is smaller the
  divisor is zero and the handler, which has no guard, has no defined result.\<close>

theorem SelectBank_in_range:
  assumes "m_ui8Mask m = 0b11100"
  shows "(0x4000 \<le> length (vPrgRom (m_prRom m)) \<longrightarrow>
            (\<exists>m'. SelectBank m v = Some m' \<and>
                   unat (m_ui8PgmBank m') =
                     unat (drop_bit 2 (v AND 0b11100)) mod (length (vPrgRom (m_prRom m)) div 0x4000) \<and>
                   unat (m_ui8PgmBank m') < length (vPrgRom (m_prRom m)) div 0x4000))
       \<and> (length (vPrgRom (m_prRom m)) < 0x4000 \<longrightarrow> SelectBank m v = None)"
proof (intro conjI impI)
  assume size: "0x4000 \<le> length (vPrgRom (m_prRom m))"
  then have d: "0 < length (vPrgRom (m_prRom m)) div 0x4000"
    by (simp add: div_greater_zero_iff)
  show "\<exists>m'. SelectBank m v = Some m' \<and>
                   unat (m_ui8PgmBank m') =
                     unat (drop_bit 2 (v AND 0b11100)) mod (length (vPrgRom (m_prRom m)) div 0x4000) \<and>
                   unat (m_ui8PgmBank m') < length (vPrgRom (m_prRom m)) div 0x4000"
    using SelectBank_Some [OF size, of v] assms mod_less_divisor [OF d]
      bank_value_eq [of "drop_bit 2 (v AND 0b11100)"]
    by simp
next
  assume "length (vPrgRom (m_prRom m)) < 0x4000"
  then show "SelectBank m v = None"
    by (simp add: SelectBank_def Let_def)
qed

theorem SelectBank_in_range_witness:
  "m_ui8Mask (InitWithRom \<lparr>vPrgRom = replicate 0xC000 0\<rparr>
               \<lparr>m_prRom = \<lparr>vPrgRom = []\<rparr>, m_ui8PgmBank = 9, m_ui8Mask = 0, m_stFixedOffset = 0\<rparr>) = 0b11100
   \<and> (\<exists>m'. SelectBank (InitWithRom \<lparr>vPrgRom = replicate 0xC000 0\<rparr>
               \<lparr>m_prRom = \<lparr>vPrgRom = []\<rparr>, m_ui8PgmBank = 9, m_ui8Mask = 0, m_stFixedOffset = 0\<rparr>) 0xFF = Some m'
           \<and> unat (m_ui8PgmBank m') = 1 \<and> unat (m_ui8PgmBank m') < 3)
   \<and> SelectBank (InitWithRom \<lparr>vPrgRom = replicate 0x3FFF 0\<rparr>
               \<lparr>m_prRom = \<lparr>vPrgRom = []\<rparr>, m_ui8PgmBank = 9, m_ui8Mask = 0, m_stFixedOffset = 0\<rparr>) 0xFF = None"
proof -
  let ?m0 = "\<lparr>m_prRom = \<lparr>vPrgRom = []\<rparr>, m_ui8PgmBank = 9, m_ui8Mask = 0, m_stFixedOffset = 0\<rparr>"
  let ?big = "InitWithRom \<lparr>vPrgRom = replicate 0xC000 0\<rparr> ?m0"
  let ?small = "InitWithRom \<lparr>vPrgRom = replicate 0x3FFF 0\<rparr> ?m0"
  have mb: "m_ui8Mask ?big = 0b11100" and ms: "m_ui8Mask ?small = 0b11100"
    by (simp_all add: InitWithRom_def)
  have "\<exists>m'. SelectBank ?big 0xFF = Some m' \<and> unat (m_ui8PgmBank m') = 1 \<and> unat (m_ui8PgmBank m') < 3"
    using SelectBank_in_range [OF mb, of "0xFF", THEN conjunct1] by (simp add: InitWithRom_def)
  moreover have "SelectBank ?small 0xFF = None"
    using SelectBank_in_range [OF ms, of "0xFF", THEN conjunct2] by (simp add: InitWithRom_def)
  ultimately show ?thesis using mb by blast
qed


section \<open>The DMA trigger\<close>

lemma ApplyMemoryMap_4014:
  "writeFuncs (ApplyMemoryMap cs cf ir mf b) 0x4014 = (Write4014_func, 0x4014)"
  by (simp add: ApplyMemoryMap_def Let_def SetWriteFunc_def SetReadFunc_def SetFloatMask_def)

lemma unat_ucast_8_16: "unat (ucast (v :: uint8_t) :: uint16_t) = unat v"
  using unat8_lt [of v] by (simp add: unsigned_ucast_eq take_bit_nat_eq_self)

lemma DmaAddress_value: "unat (push_bit 8 (ucast (v :: uint8_t)) :: uint16_t) = unat v * 256"
proof -
  have "unat (ucast v * 256 :: uint16_t) = (unat v * 256) mod 65536"
    by (simp add: unat_word_ariths unat_ucast_8_16)
  with unat8_lt [of v] show ?thesis by (simp add: push_bit_eq_mult)
qed

text \<open>Claim C8.  After \<open>ApplyMemoryMap\<close> the write handler of 0x4014 is \<open>Write4014\<close>, so a
  write of \<open>V\<close> to 0x4014 is \<open>BeginDma V\<close>: the DMA source address becomes \<open>V << 8\<close>, the
  active tick handler becomes the DMA tick handler, the saved copy \<open>m_pfTickFuncCopy\<close> and
  the register file are unchanged, and apart from the active tick handler, the DMA address
  and the DMA go flag no member of the CPU changes.\<close>

theorem Write4014_begins_dma:
  "cpu_bus_write (ApplyMemoryMap cs cf ir mf b) 0x4014 V s = BeginDma V s
   \<and> BeginDma V s = s\<lparr>m_pfTickFunc := Tick_Dma LSN_DS_IDLE False,
                        m_ui16DmaAddress := push_bit 8 (ucast V),
                        m_bDmaGo := False\<rparr>
   \<and> unat (m_ui16DmaAddress (BeginDma V s)) = unat V * 256
   \<and> m_pfTickFunc (BeginDma V s) = Tick_Dma LSN_DS_IDLE False
   \<and> m_pfTickFuncCopy (BeginDma V s) = m_pfTickFuncCopy s
   \<and> m_rRegs (BeginDma V s) = m_rRegs s
   \<and> (BeginDma V s)\<lparr>m_pfTickFunc := m_pfTickFunc s, m_ui16DmaAddress := m_ui16DmaAddress s,
                      m_bDmaGo := m_bDmaGo s\<rparr> = s
   \<and> m_pfTickFuncCopy (LSN_INSTR_START_PHI2_WRITE E a v s) = m_pfTickFuncCopy s
   \<and> m_rRegs (LSN_INSTR_START_PHI2_WRITE E a v s) = m_rRegs s"
proof -
  have handler: "cpu_bus_write (ApplyMemoryMap cs cf ir mf b) 0x4014 V s = BeginDma V s"
    by (simp add: cpu_bus_write_def ApplyMemoryMap_4014 Write4014_def)
  have frame: "(BeginDma V s)\<lparr>m_pfTickFunc := m_pfTickFunc s, m_ui16DmaAddress := m_ui16DmaAddress s,
                      m_bDmaGo := m_bDmaGo s\<rparr> = s"
    by (simp add: BeginDma_def)
  have micro: "m_pfTickFuncCopy (LSN_INSTR_START_PHI2_WRITE E a v s) = m_pfTickFuncCopy s"
    "m_rRegs (LSN_INSTR_START_PHI2_WRITE E a v s) = m_rRegs s"
    by (simp_all add: LSN_INSTR_START_PHI2_WRITE_def Let_def Write4014_def BeginDma_def
          split: prod.split option.split)
  from handler frame micro show ?thesis
    by (simp add: BeginDma_def DmaAddress_value)
qed

text \<open>A micro-step write of 0x02 to 0x4014 on the example bus: the DMA tick handler becomes
  active with source 0x0200, and the saved handler is still the normal one.\<close>

theorem Write4014_begins_dma_witness:
  "m_pfTickFunc (LSN_INSTR_START_PHI2_WRITE (tape_env False jam_handlers) 0x4014 0x02 cpu0)
     = Tick_Dma LSN_DS_IDLE False
   \<and> m_ui16DmaAddress (LSN_INSTR_START_PHI2_WRITE (tape_env False jam_handlers) 0x4014 0x02 cpu0)
     = 0x0200
   \<and> m_pfTickFuncCopy (LSN_INSTR_START_PHI2_WRITE (tape_env False jam_handlers) 0x4014 0x02 cpu0)
     = Tick_NextInstructionStd
   \<and> m_rRegs (LSN_INSTR_START_PHI2_WRITE (tape_env False jam_handlers) 0x4014 0x02 cpu0)
     = m_rRegs cpu0"
proof -
  let ?E = "tape_env False jam_handlers"
  let ?s1 = "cpu0\<lparr>m_pbBus := (m_pbBus cpu0)\<lparr>mem := (mem (m_pbBus cpu0))(0x4014 := 0x02),
                                              tape := tape (m_pbBus cpu0) @ [(0x4014, 0x02, False)]\<rparr>\<rparr>"
  have w: "LSN_INSTR_START_PHI2_WRITE ?E 0x4014 0x02 cpu0 = BeginDma 0x02 ?s1"
    by (simp add: LSN_INSTR_START_PHI2_WRITE_def tape_env_def Let_def Write4014_def)
  note D = Write4014_begins_dma [of _ _ _ _ _ "0x02" ?s1 ?E "0x4014" "0x02"]
  have 1: "m_pfTickFunc (BeginDma 0x02 ?s1) = Tick_Dma LSN_DS_IDLE False"
    using D by blast
  have 2: "m_ui16DmaAddress (BeginDma 0x02 ?s1) = 0x0200"
    using D [THEN conjunct2, THEN conjunct1] by simp
  have 3: "m_pfTickFuncCopy (BeginDma 0x02 ?s1) = Tick_NextInstructionStd"
    using D [THEN conjunct2, THEN conjunct2, THEN conjunct2, THEN conjunct2, THEN conjunct1]
    by (simp add: cpu0_def)
  have 4: "m_rRegs (BeginDma 0x02 ?s1) = m_rRegs cpu0"
    using D [THEN conjunct2, THEN conjunct2, THEN conjunct2, THEN conjunct2, THEN conjunct2,
             THEN conjunct1]
    by simp
  from 1 2 3 4 show ?thesis unfolding w by blast
qed

section \<open>The two half-cycle entry points\<close>

text \<open>Claim C1.  In the standard build, \<open>Tick\<close> first takes the snapshot
  \<open>m_bIrqStatusPhi1Flag = m_bIrqSeenLowPhi2\<close> and clears \<open>m_bIrqSeenLowPhi2\<close>, then runs the
  mapper's tick on that state, then calls the tick handler once, which for the normal
  handler is the one micro-step function at the current index.  \<open>TickPhi2\<close> calls the tick
  handler once and then, on the state it returns, ORs the NMI rising edge into
  \<open>m_bDetectedNmi\<close>, copies the NMI line into \<open>m_bLastNmiStatusLine\<close>, ORs the IRQ line into
  \<open>m_bIrqSeenLowPhi2\<close> and adds one to the 64-bit cycle counter.\<close>

theorem Tick_TickPhi2_order:
  "Tick (E\<lparr>LSN_CPU_VERIFY := False\<rparr>) s =
     call_PfTicks (E\<lparr>LSN_CPU_VERIFY := False\<rparr>) (m_pfTickFunc s)
       (call_mapper_Tick (E\<lparr>LSN_CPU_VERIFY := False\<rparr>)
          (s\<lparr>m_bIrqStatusPhi1Flag := m_bIrqSeenLowPhi2 s, m_bIrqSeenLowPhi2 := False\<rparr>))
   \<and> call_mapper_Tick E s =
       s\<lparr>m_pbBus := fst (mapper_Tick E (m_pbBus s) (m_bIrqStatusLine s)),
         m_bIrqStatusLine := snd (mapper_Tick E (m_pbBus s) (m_bIrqStatusLine s))\<rparr>
   \<and> call_PfTicks E Tick_NextInstructionStd s =
       call_PfCycle E (m_pfCurInstruction s (unat (m_ui8FuncIndex s))) s
   \<and> TickPhi2 E s =
       (call_PfTicks E (m_pfTickFunc s) s)
         \<lparr>m_bDetectedNmi :=
             (m_bDetectedNmi (call_PfTicks E (m_pfTickFunc s) s)
              \<or> (\<not> m_bLastNmiStatusLine (call_PfTicks E (m_pfTickFunc s) s)
                  \<and> m_bNmiStatusLine (call_PfTicks E (m_pfTickFunc s) s))),
           m_bLastNmiStatusLine := m_bNmiStatusLine (call_PfTicks E (m_pfTickFunc s) s),
           m_bIrqSeenLowPhi2 :=
             (m_bIrqSeenLowPhi2 (call_PfTicks E (m_pfTickFunc s) s)
              \<or> m_bIrqStatusLine (call_PfTicks E (m_pfTickFunc s) s)),
           m_ui64CycleCount := m_ui64CycleCount (call_PfTicks E (m_pfTickFunc s) s) + 1\<rparr>"
  by (simp add: Tick_def TickPhi2_def Let_def call_mapper_Tick_def Tick_NextInstructionStd_body_def
        split: prod.split)


text \<open>The micro-step of \<open>Tick\<close> sees the IRQ line the mapper's tick has just raised, the
  snapshot of the previous phi2 latch and the latch already cleared (1 + 2 + 0); the NMI
  line the micro-step of \<open>TickPhi2\<close> raises is latched in the same phi2, after it, and so
  is the IRQ line; the counter goes from 0 to 1.\<close>

theorem Tick_TickPhi2_order_witness:
  "m_ui8Operand (Tick probe_env (cpu0\<lparr>m_bIrqSeenLowPhi2 := True\<rparr>)) = 3
   \<and> m_bDetectedNmi (TickPhi2 probe_env cpu0)
   \<and> m_bLastNmiStatusLine (TickPhi2 probe_env cpu0)
   \<and> m_ui8Operand (TickPhi2 probe_env (cpu0\<lparr>m_bIrqStatusLine := True\<rparr>)) = 1
   \<and> m_bIrqSeenLowPhi2 (TickPhi2 probe_env (cpu0\<lparr>m_bIrqStatusLine := True\<rparr>))
   \<and> m_ui64CycleCount (TickPhi2 probe_env cpu0) = 1"
proof -
  have E: "probe_env\<lparr>LSN_CPU_VERIFY := False\<rparr> = probe_env"
    by (simp add: probe_env_def tape_env_def)
  have mt: "mapper_Tick probe_env = (\<lambda>x irq. (x, True))"
    and oc: "other_PfCycle probe_env = (\<lambda>n s. s\<lparr>m_ui8Operand :=
             (if m_bIrqStatusLine s then 1 else 0) + (if m_bIrqStatusPhi1Flag s then 2 else 0)
               + (if m_bIrqSeenLowPhi2 s then 4 else 0),
           m_bNmiStatusLine := True\<rparr>)"
    by (simp_all add: probe_env_def)
  have pre: "call_mapper_Tick probe_env s = s\<lparr>m_bIrqStatusLine := True\<rparr>" for s
    by (simp add: call_mapper_Tick_def mt)
  have step: "Tick_NextInstructionStd_body probe_env s =
      s\<lparr>m_ui8Operand :=
             (if m_bIrqStatusLine s then 1 else 0) + (if m_bIrqStatusPhi1Flag s then 2 else 0)
               + (if m_bIrqSeenLowPhi2 s then 4 else 0),
           m_bNmiStatusLine := True\<rparr>"
    if "m_pfCurInstruction s = (\<lambda>i. PfCycle_other 0)" for s
    using that by (simp add: Tick_NextInstructionStd_body_def oc)
  have tf: "m_pfTickFunc cpu0 = Tick_NextInstructionStd"
    "m_pfCurInstruction cpu0 = (\<lambda>i. PfCycle_other 0)"
    "m_bIrqStatusLine cpu0 = False" "m_bIrqStatusPhi1Flag cpu0 = False"
    "m_bIrqSeenLowPhi2 cpu0 = False" "m_bDetectedNmi cpu0 = False"
    "m_bLastNmiStatusLine cpu0 = False" "m_ui64CycleCount cpu0 = 0"
    by (simp_all add: cpu0_def)
  have T1: "Tick probe_env s =
     call_PfTicks probe_env (m_pfTickFunc s)
       (call_mapper_Tick probe_env
          (s\<lparr>m_bIrqStatusPhi1Flag := m_bIrqSeenLowPhi2 s, m_bIrqSeenLowPhi2 := False\<rparr>))" for s
    using Tick_TickPhi2_order [of probe_env s, THEN conjunct1] unfolding E .
  have 1: "m_ui8Operand (Tick probe_env (cpu0\<lparr>m_bIrqSeenLowPhi2 := True\<rparr>)) = 3"
    by (simp add: T1 pre tf step)
  note T2 = Tick_TickPhi2_order [of probe_env cpu0, THEN conjunct2, THEN conjunct2, THEN conjunct2]
  note T3 = Tick_TickPhi2_order [of probe_env "cpu0\<lparr>m_bIrqStatusLine := True\<rparr>",
               THEN conjunct2, THEN conjunct2, THEN conjunct2]
  have 2: "m_bDetectedNmi (TickPhi2 probe_env cpu0)" "m_bLastNmiStatusLine (TickPhi2 probe_env cpu0)"
    "m_ui64CycleCount (TickPhi2 probe_env cpu0) = 1"
    by (simp_all add: T2 tf step)
  have 3: "m_ui8Operand (TickPhi2 probe_env (cpu0\<lparr>m_bIrqStatusLine := True\<rparr>)) = 1"
    "m_bIrqSeenLowPhi2 (TickPhi2 probe_env (cpu0\<lparr>m_bIrqStatusLine := True\<rparr>))"
    by (simp_all add: T3 tf step)
  from 1 2 3 show ?thesis by blast
qed


section \<open>Opcode fetch and the BRK sequence\<close>







section \<open>Vector selection and the pushed status byte\<close>







section \<open>ANE and LXA\<close>

lemma LSN_UPDATE_PC_regs:
  "ui8A (m_rRegs (LSN_UPDATE_PC s)) = ui8A (m_rRegs s)"
  "ui8X (m_rRegs (LSN_UPDATE_PC s)) = ui8X (m_rRegs s)"
  "ui8Status (m_rRegs (LSN_UPDATE_PC s)) = ui8Status (m_rRegs s)"
  "m_ui8Operand (LSN_UPDATE_PC s) = m_ui8Operand s"
  by (simp_all add: LSN_UPDATE_PC_def Let_def)

lemma SetBit_test: "(SetBit m v c AND m \<noteq> 0) = (c \<and> m \<noteq> 0)"
proof (cases c)
  case True
  have "(v OR m) AND m = m" by (rule bit_word_eqI) (auto simp: bit_simps)
  with True show ?thesis by (simp add: SetBit_def)
next
  case False
  have "(v AND NOT m) AND m = 0" by (rule bit_word_eqI) (auto simp: bit_simps)
  with False show ?thesis by (simp add: SetBit_def)
qed

lemma SetBit_other:
  "m AND m' = 0 \<Longrightarrow> (SetBit m v c AND m' \<noteq> 0) = (v AND m' \<noteq> 0)"
proof -
  assume d: "m AND m' = 0"
  have 1: "(v OR m) AND m' = v AND m'"
  proof -
    have "(v OR m) AND m' = (v AND m') OR (m AND m')" by (rule bit_word_eqI) (auto simp: bit_simps)
    with d show ?thesis by simp
  qed
  have 2: "(v AND NOT m) AND m' = v AND m'"
  proof -
    have "(v AND NOT m) AND m' = (v AND m') AND NOT (m AND m')"
      by (rule bit_word_eqI) (auto simp: bit_simps)
    with d show ?thesis by simp
  qed
  from 1 2 show ?thesis by (simp add: SetBit_def)
qed

lemma bit7_test: "(w AND 0x80 \<noteq> 0) = bit (w :: uint8_t) 7"
proof -
  have "(w AND 0x80 = 0) = (\<not> bit w 7)"
  proof
    assume "w AND 0x80 = 0"
    then have "\<not> bit (w AND 0x80) 7" by simp
    then show "\<not> bit w 7" by (simp add: bit_simps)
  next
    assume n: "\<not> bit w 7"
    show "w AND 0x80 = 0"
    proof (rule bit_word_eqI)
      fix k assume "k < LENGTH(8)"
      have "bit (0x80 :: uint8_t) k = (k = 7)"
        using bit_push_bit_iff [of 7 "1 :: uint8_t" k] by (auto simp: bit_simps)
      with n show "bit (w AND 0x80) k = bit (0 :: uint8_t) k" by (auto simp: bit_simps)
    qed
  qed
  then show ?thesis by blast
qed

text \<open>Claim C4, as the code has it.  ANE computes \<open>A = (A | 0xEE) & X & M\<close> in either build
  and leaves X alone; LXA computes \<open>A = X = (A | const) & M\<close> with const 0xEE when
  \<open>LSN_CPU_VERIFY\<close> is defined and 0xFF otherwise.  In both, N is bit 7 of the result and Z
  says that the result is zero.  (A, X and M are read after \<open>BeginInst()\<close>.)\<close>

theorem Ane_Lxa_result:
  "ui8A (m_rRegs (Ane_IncPc_BeginInst E s)) =
     (ui8A (m_rRegs (BeginInst E s)) OR 0xEE) AND ui8X (m_rRegs (BeginInst E s))
       AND m_ui8Operand (BeginInst E s)
   \<and> ui8X (m_rRegs (Ane_IncPc_BeginInst E s)) = ui8X (m_rRegs (BeginInst E s))
   \<and> (ui8Status (m_rRegs (Ane_IncPc_BeginInst E s)) AND N_flag \<noteq> 0) =
       bit (ui8A (m_rRegs (Ane_IncPc_BeginInst E s))) 7
   \<and> (ui8Status (m_rRegs (Ane_IncPc_BeginInst E s)) AND Z_flag \<noteq> 0) =
       (ui8A (m_rRegs (Ane_IncPc_BeginInst E s)) = 0)
   \<and> ui8A (m_rRegs (Lxa_IncPc_BeginInst E s)) =
     (ui8A (m_rRegs (BeginInst E s)) OR (if LSN_CPU_VERIFY E then 0xEE else 0xFF))
       AND m_ui8Operand (BeginInst E s)
   \<and> ui8X (m_rRegs (Lxa_IncPc_BeginInst E s)) = ui8A (m_rRegs (Lxa_IncPc_BeginInst E s))
   \<and> (ui8Status (m_rRegs (Lxa_IncPc_BeginInst E s)) AND N_flag \<noteq> 0) =
       bit (ui8A (m_rRegs (Lxa_IncPc_BeginInst E s))) 7
   \<and> (ui8Status (m_rRegs (Lxa_IncPc_BeginInst E s)) AND Z_flag \<noteq> 0) =
       (ui8A (m_rRegs (Lxa_IncPc_BeginInst E s)) = 0)"
proof -
  have NZ: "N_flag AND Z_flag = 0" "Z_flag \<noteq> 0" "N_flag \<noteq> 0" "Z_flag AND N_flag = 0"
    by (simp_all add: N_flag_def Z_flag_def)
  show ?thesis
    by (simp add: Ane_IncPc_BeginInst_def Lxa_IncPc_BeginInst_def Let_def set_status_def
          LSN_UPDATE_PC_regs SetBit_test SetBit_other NZ bit7_test)
qed


text \<open>The claim as stated gives ANE the constant 0xFF in the standard build.  With A = 0x00,
  X = 0xFF and M = 0xFF the code leaves 0xEE in A, not 0xFF.\<close>

theorem Ane_constant_counterexample:
  "ui8A (m_rRegs (Ane_IncPc_BeginInst (tape_env False (\<lambda>i. PfCycle_other 0))
            (cpu0\<lparr>m_rRegs := (m_rRegs cpu0)\<lparr>ui8A := 0x00, ui8X := 0xFF\<rparr>, m_ui8Operand := 0xFF\<rparr>))) = 0xEE
   \<and> ui8A (m_rRegs (Ane_IncPc_BeginInst (tape_env False (\<lambda>i. PfCycle_other 0))
            (cpu0\<lparr>m_rRegs := (m_rRegs cpu0)\<lparr>ui8A := 0x00, ui8X := 0xFF\<rparr>, m_ui8Operand := 0xFF\<rparr>)))
       \<noteq> (0x00 OR (if LSN_CPU_VERIFY (tape_env False (\<lambda>i. PfCycle_other 0)) then 0xEE else 0xFF))
            AND 0xFF AND 0xFF"
  by (simp add: Ane_IncPc_BeginInst_def Let_def tape_env_def cpu0_def LSN_UPDATE_PC_def
        set_status_def)

text \<open>ANE with A = 0x00, X = 0xFF, M = 0xFF gives 0xEE in the verification build as well;
  LXA with A = 0x00 and M = 0x5A gives 0x5A in the standard build and 0x4A in the
  verification build, in A and in X.\<close>

theorem Ane_Lxa_result_witness:
  "ui8A (m_rRegs (Ane_IncPc_BeginInst (tape_env True jam_handlers)
      (cpu0\<lparr>m_rRegs := (m_rRegs cpu0)\<lparr>ui8A := 0x00, ui8X := 0xFF\<rparr>, m_ui8Operand := 0xFF\<rparr>))) = 0xEE
   \<and> ui8A (m_rRegs (Lxa_IncPc_BeginInst (tape_env False jam_handlers)
      (cpu0\<lparr>m_rRegs := (m_rRegs cpu0)\<lparr>ui8A := 0x00, ui8X := 0x33\<rparr>, m_ui8Operand := 0x5A\<rparr>))) = 0x5A
   \<and> ui8X (m_rRegs (Lxa_IncPc_BeginInst (tape_env False jam_handlers)
      (cpu0\<lparr>m_rRegs := (m_rRegs cpu0)\<lparr>ui8A := 0x00, ui8X := 0x33\<rparr>, m_ui8Operand := 0x5A\<rparr>))) = 0x5A
   \<and> ui8A (m_rRegs (Lxa_IncPc_BeginInst (tape_env True jam_handlers)
      (cpu0\<lparr>m_rRegs := (m_rRegs cpu0)\<lparr>ui8A := 0x00, ui8X := 0x33\<rparr>, m_ui8Operand := 0x5A\<rparr>))) = 0x4A"
proof -
  let ?s = "cpu0\<lparr>m_rRegs := (m_rRegs cpu0)\<lparr>ui8A := 0x00, ui8X := 0xFF\<rparr>, m_ui8Operand := 0xFF\<rparr>"
  let ?t = "cpu0\<lparr>m_rRegs := (m_rRegs cpu0)\<lparr>ui8A := 0x00, ui8X := 0x33\<rparr>, m_ui8Operand := 0x5A\<rparr>"
  have bi: "BeginInst (tape_env v jam_handlers) s = s\<lparr>m_ui8FuncIndex := 0\<rparr>" for v s
    by (simp add: tape_env_def)
  have vf: "LSN_CPU_VERIFY (tape_env v jam_handlers) = v" for v
    by (simp add: tape_env_def)
  have 1: "ui8A (m_rRegs (Ane_IncPc_BeginInst (tape_env True jam_handlers) ?s)) = 0xEE"
    using Ane_Lxa_result [of "tape_env True jam_handlers" ?s, THEN conjunct1]
    by (simp add: bi)
  note L = Ane_Lxa_result [THEN conjunct2, THEN conjunct2, THEN conjunct2, THEN conjunct2]
  have 2: "ui8A (m_rRegs (Lxa_IncPc_BeginInst (tape_env False jam_handlers) ?t)) = 0x5A"
    using L [of "tape_env False jam_handlers" ?t, THEN conjunct1] by (simp add: bi vf)
  have 3: "ui8X (m_rRegs (Lxa_IncPc_BeginInst (tape_env False jam_handlers) ?t)) = 0x5A"
    using L [of "tape_env False jam_handlers" ?t, THEN conjunct2, THEN conjunct1] 2 by simp
  have 4: "ui8A (m_rRegs (Lxa_IncPc_BeginInst (tape_env True jam_handlers) ?t)) = 0x4A"
    using L [of "tape_env True jam_handlers" ?t, THEN conjunct1] by (simp add: bi vf)
  from 1 2 3 4 show ?thesis by blast
qed


section \<open>The SHA, SHS, SHX and SHY stores\<close>

lemma ucast_and_16_8: "(ucast (a AND b :: uint16_t) :: uint8_t) = ucast a AND ucast b"
  by (rule bit_word_eqI) (auto simp: bit_simps)

lemma ucast_ucast_8_16_8: "(ucast (ucast (r :: uint8_t) :: uint16_t) :: uint8_t) = r"
  by (rule bit_word_eqI) (auto simp: bit_simps)

lemma ucast_succ_16_8: "(ucast (ucast (h :: uint8_t) + 1 :: uint16_t) :: uint8_t) = h + 1"
proof -
  have "unat (ucast h + 1 :: uint16_t) = (unat h + 1) mod 65536"
    by (simp add: unat_word_ariths unat_ucast_8_16)
  also have "\<dots> = unat h + 1" using unat8_lt [of h] by simp
  finally have u: "unat (ucast h + 1 :: uint16_t) = unat h + 1" .
  have "(ucast (ucast h + 1 :: uint16_t) :: uint8_t) = word_of_nat (unat (ucast h + 1 :: uint16_t))"
    by simp
  also have "\<dots> = word_of_nat (unat h + 1)" by (simp only: u)
  also have "\<dots> = h + 1" by simp
  finally show ?thesis .
qed

lemma byte1_compose: "byte1 (ucast (lo :: uint8_t) OR push_bit 8 (ucast (v :: uint8_t))) = v"
  unfolding byte1_def by (rule bit_word_eqI) (auto simp: bit_simps dest: bit_imp_le_length)

lemma byte0_compose: "byte0 (ucast (lo :: uint8_t) OR push_bit 8 (ucast (v :: uint8_t))) = lo"
  unfolding byte0_def by (rule bit_word_eqI) (auto simp: bit_simps)

lemma ucast_and_8_16: "(ucast (a AND b :: uint8_t) :: uint16_t) = ucast a AND ucast b"
  by (rule bit_word_eqI) (auto simp: bit_simps)


lemma sh_store_eq:
  "sh_store E ea reg s =
     LSN_INSTR_START_PHI2_WRITE E (spec_SH_address (m_bBoundaryCrossed s) ea reg)
       (spec_SH_value (m_bBoundaryCrossed s) ea reg) s"
  by (simp add: sh_store_def spec_SH_address_def spec_SH_value_def Let_def
        ucast_and_16_8 ucast_ucast_8_16_8 ucast_succ_16_8 ucast_and_8_16 and.commute)

text \<open>Claim C6.  Each of \<open>Sha_Phi2\<close>, \<open>Shs_Phi2\<close>, \<open>Shx_Phi2\<close> and \<open>Shy_Phi2\<close> (for both values
  of the template argument) performs exactly one bus write and then finishes the
  instruction.  With no page crossing the byte written is \<open>reg & (high byte + 1)\<close> at the
  effective address, \<open>reg\<close> being A & X for SHA and SHS, X for SHX and Y for SHY.  After a
  page crossing the address keeps its low byte and its high byte is the stored value.
  SHS also copies A & X into S.\<close>

theorem SH_store_effect:
  "Sha_Phi2 E b s =
     LSN_FINISH_INST True (LSN_INSTR_START_PHI2_WRITE E
       (spec_SH_address (m_bBoundaryCrossed s) (if b then m_ui16Address s else m_ui16Pointer s)
          (ui8A (m_rRegs s) AND ui8X (m_rRegs s)))
       (spec_SH_value (m_bBoundaryCrossed s) (if b then m_ui16Address s else m_ui16Pointer s)
          (ui8A (m_rRegs s) AND ui8X (m_rRegs s))) s)
   \<and> Shs_Phi2 E b s =
     LSN_FINISH_INST True (LSN_INSTR_START_PHI2_WRITE E
       (spec_SH_address (m_bBoundaryCrossed s) (if b then m_ui16Address s else m_ui16Pointer s)
          (ui8A (m_rRegs s) AND ui8X (m_rRegs s)))
       (spec_SH_value (m_bBoundaryCrossed s) (if b then m_ui16Address s else m_ui16Pointer s)
          (ui8A (m_rRegs s) AND ui8X (m_rRegs s)))
       (s\<lparr>m_rRegs := (m_rRegs s)\<lparr>ui8S := ui8A (m_rRegs s) AND ui8X (m_rRegs s)\<rparr>\<rparr>))
   \<and> Shx_Phi2 E b s =
     LSN_FINISH_INST True (LSN_INSTR_START_PHI2_WRITE E
       (spec_SH_address (m_bBoundaryCrossed s) (if b then m_ui16Address s else m_ui16Pointer s)
          (ui8X (m_rRegs s)))
       (spec_SH_value (m_bBoundaryCrossed s) (if b then m_ui16Address s else m_ui16Pointer s)
          (ui8X (m_rRegs s))) s)
   \<and> Shy_Phi2 E b s =
     LSN_FINISH_INST True (LSN_INSTR_START_PHI2_WRITE E
       (spec_SH_address (m_bBoundaryCrossed s) (if b then m_ui16Address s else m_ui16Pointer s)
          (ui8Y (m_rRegs s)))
       (spec_SH_value (m_bBoundaryCrossed s) (if b then m_ui16Address s else m_ui16Pointer s)
          (ui8Y (m_rRegs s))) s)
   \<and> spec_SH_value False ea reg = reg AND (byte1 ea + 1)
   \<and> spec_SH_address False ea reg = ea
   \<and> byte1 (spec_SH_address True ea reg) = spec_SH_value True ea reg
   \<and> byte0 (spec_SH_address True ea reg) = byte0 ea
   \<and> m_pbBus (LSN_FINISH_INST True (LSN_INSTR_START_PHI2_WRITE E a v s)) =
       fst (bus_Write E (m_pbBus s) (m_bNmiStatusLine s) (m_bIrqStatusLine s) a v)"
proof -
  have bus: "m_pbBus (LSN_FINISH_INST True (LSN_INSTR_START_PHI2_WRITE E a v s)) =
       fst (bus_Write E (m_pbBus s) (m_bNmiStatusLine s) (m_bIrqStatusLine s) a v)"
    by (simp add: LSN_FINISH_INST_def LSN_NEXT_FUNCTION_def LSN_NEXT_FUNCTION_BY_def
          LSN_CHECK_INTERRUPTS_def LSN_INSTR_START_PHI2_WRITE_def Let_def Write4014_def
          BeginDma_def split: prod.split option.split)
  have facts: "spec_SH_value False ea reg = reg AND (byte1 ea + 1)"
    "spec_SH_address False ea reg = ea"
    "byte1 (spec_SH_address True ea reg) = spec_SH_value True ea reg"
    "byte0 (spec_SH_address True ea reg) = byte0 ea"
    by (simp_all add: spec_SH_value_def spec_SH_address_def byte1_compose byte0_compose)
  have ops: "Sha_Phi2 E b s =
     LSN_FINISH_INST True (LSN_INSTR_START_PHI2_WRITE E
       (spec_SH_address (m_bBoundaryCrossed s) (if b then m_ui16Address s else m_ui16Pointer s)
          (ui8A (m_rRegs s) AND ui8X (m_rRegs s)))
       (spec_SH_value (m_bBoundaryCrossed s) (if b then m_ui16Address s else m_ui16Pointer s)
          (ui8A (m_rRegs s) AND ui8X (m_rRegs s))) s)"
    "Shs_Phi2 E b s =
     LSN_FINISH_INST True (LSN_INSTR_START_PHI2_WRITE E
       (spec_SH_address (m_bBoundaryCrossed s) (if b then m_ui16Address s else m_ui16Pointer s)
          (ui8A (m_rRegs s) AND ui8X (m_rRegs s)))
       (spec_SH_value (m_bBoundaryCrossed s) (if b then m_ui16Address s else m_ui16Pointer s)
          (ui8A (m_rRegs s) AND ui8X (m_rRegs s)))
       (s\<lparr>m_rRegs := (m_rRegs s)\<lparr>ui8S := ui8A (m_rRegs s) AND ui8X (m_rRegs s)\<rparr>\<rparr>))"
    "Shx_Phi2 E b s =
     LSN_FINISH_INST True (LSN_INSTR_START_PHI2_WRITE E
       (spec_SH_address (m_bBoundaryCrossed s) (if b then m_ui16Address s else m_ui16Pointer s)
          (ui8X (m_rRegs s)))
       (spec_SH_value (m_bBoundaryCrossed s) (if b then m_ui16Address s else m_ui16Pointer s)
          (ui8X (m_rRegs s))) s)"
    "Shy_Phi2 E b s =
     LSN_FINISH_INST True (LSN_INSTR_START_PHI2_WRITE E
       (spec_SH_address (m_bBoundaryCrossed s) (if b then m_ui16Address s else m_ui16Pointer s)
          (ui8Y (m_rRegs s)))
       (spec_SH_value (m_bBoundaryCrossed s) (if b then m_ui16Address s else m_ui16Pointer s)
          (ui8Y (m_rRegs s))) s)"
    by (simp_all add: Sha_Phi2_def Shs_Phi2_def Shx_Phi2_def Shy_Phi2_def sh_store_eq Let_def)
  from ops facts bus show ?thesis by (intro conjI)
qed


text \<open>SHA with A = 0xFF, X = 0x0F at 0x1234: without a crossing 0x0F & 0x13 = 0x03 goes to
  0x1234, after a crossing 0x0F & 0x12 = 0x02 goes to 0x0234.  SHY with Y = 0xFF at 0xFF80
  without a crossing: the high byte plus one wraps to 0 and 0x00 is stored.\<close>

theorem SH_store_effect_witness:
  "tape (m_pbBus (Sha_Phi2 (tape_env False jam_handlers) True
      (cpu0\<lparr>m_rRegs := (m_rRegs cpu0)\<lparr>ui8A := 0xFF, ui8X := 0x0F\<rparr>, m_ui16Address := 0x1234\<rparr>)))
     = [(0x1234, 0x03, False)]
   \<and> tape (m_pbBus (Sha_Phi2 (tape_env False jam_handlers) True
      (cpu0\<lparr>m_rRegs := (m_rRegs cpu0)\<lparr>ui8A := 0xFF, ui8X := 0x0F\<rparr>, m_ui16Address := 0x1234,
            m_bBoundaryCrossed := True\<rparr>)))
     = [(0x0234, 0x02, False)]
   \<and> tape (m_pbBus (Shy_Phi2 (tape_env False jam_handlers) False
      (cpu0\<lparr>m_rRegs := (m_rRegs cpu0)\<lparr>ui8Y := 0xFF\<rparr>, m_ui16Pointer := 0xFF80\<rparr>)))
     = [(0xFF80, 0x00, False)]"
proof -
  let ?E = "tape_env False jam_handlers"
  let ?s = "cpu0\<lparr>m_rRegs := (m_rRegs cpu0)\<lparr>ui8A := 0xFF, ui8X := 0x0F\<rparr>, m_ui16Address := 0x1234\<rparr>"
  let ?t = "cpu0\<lparr>m_rRegs := (m_rRegs cpu0)\<lparr>ui8A := 0xFF, ui8X := 0x0F\<rparr>, m_ui16Address := 0x1234,
            m_bBoundaryCrossed := True\<rparr>"
  let ?u = "cpu0\<lparr>m_rRegs := (m_rRegs cpu0)\<lparr>ui8Y := 0xFF\<rparr>, m_ui16Pointer := 0xFF80\<rparr>"
  have wr: "fst (bus_Write ?E x nmi irq a v) = x\<lparr>mem := (mem x)(a := v), tape := tape x @ [(a, v, False)]\<rparr>"
    for x nmi irq a v
    by (simp add: tape_env_def)
  have f: "m_bBoundaryCrossed cpu0 = False" "tape (m_pbBus cpu0) = []"
    by (simp_all add: cpu0_def)
  have v1: "spec_SH_value False 0x1234 0x0F = 0x03"
    and a1: "spec_SH_address False 0x1234 0x0F = 0x1234"
    and v2: "spec_SH_value True 0x1234 0x0F = 0x02"
    and a2: "spec_SH_address True 0x1234 0x0F = 0x0234"
    and v3: "spec_SH_value False 0xFF80 0xFF = 0x00"
    and a3: "spec_SH_address False 0xFF80 0xFF = 0xFF80"
    by (simp_all add: spec_SH_value_def spec_SH_address_def byte0_def byte1_def)
  note S = SH_store_effect [of ?E True ?s, THEN conjunct1]
  note T = SH_store_effect [of ?E True ?t, THEN conjunct1]
  note U = SH_store_effect [of ?E False ?u, THEN conjunct2, THEN conjunct2, THEN conjunct2, THEN conjunct1]
  note B = SH_store_effect [of ?E, THEN conjunct2, THEN conjunct2, THEN conjunct2, THEN conjunct2,
             THEN conjunct2, THEN conjunct2, THEN conjunct2, THEN conjunct2]
  have 1: "tape (m_pbBus (Sha_Phi2 ?E True ?s)) = [(0x1234, 0x03, False)]"
    unfolding S B by (simp add: wr f v1 a1)
  have 2: "tape (m_pbBus (Sha_Phi2 ?E True ?t)) = [(0x0234, 0x02, False)]"
    unfolding T B by (simp add: wr f v2 a2)
  have 3: "tape (m_pbBus (Shy_Phi2 ?E False ?u)) = [(0xFF80, 0x00, False)]"
    unfolding U B by (simp add: wr f v3 a3)
  from 1 2 3 show ?thesis by blast
qed


section \<open>The JAM loop\<close>

lemma Tick_eq_prologue: "Tick E s = call_PfTicks E (m_pfTickFunc (Tick_prologue E s)) (Tick_prologue E s)"
  by (simp add: Tick_def Tick_prologue_def Let_def)

lemma Tick_prologue_fields:
  "m_pfTickFunc (Tick_prologue E s) = m_pfTickFunc s"
  "m_pfCurInstruction (Tick_prologue E s) = m_pfCurInstruction s"
  "m_ui8FuncIndex (Tick_prologue E s) = m_ui8FuncIndex s"
  "m_rRegs (Tick_prologue E s) = m_rRegs s"
  "m_ui16PcModify (Tick_prologue E s) = m_ui16PcModify s"
  "m_bAllowWritingToPc (Tick_prologue E s) = m_bAllowWritingToPc s"
  "m_ui16OpCode (Tick_prologue E s) = m_ui16OpCode s"
  "m_ui64CycleCount (Tick_prologue E s) = m_ui64CycleCount s"
  "m_bNmiStatusLine (Tick_prologue E s) = m_bNmiStatusLine s"
  by (simp_all add: Tick_prologue_def Let_def call_mapper_Tick_def split: prod.split)

lemma Jam_fields:
  "m_pfTickFunc (Jam s) = m_pfTickFunc s"
  "m_pfCurInstruction (Jam s) = m_pfCurInstruction s"
  "m_ui8FuncIndex (Jam s) = m_ui8FuncIndex s + 1"
  "m_rRegs (Jam s) = (m_rRegs s)\<lparr>ui16Pc :=
      (if m_bAllowWritingToPc s then ui16Pc (m_rRegs s) - m_ui16PcModify s else ui16Pc (m_rRegs s))\<rparr>"
  "m_ui16PcModify (Jam s) = 0"
  "m_bAllowWritingToPc (Jam s) = m_bAllowWritingToPc s"
  "m_ui16OpCode (Jam s) = m_ui16OpCode s"
  "m_ui64CycleCount (Jam s) = m_ui64CycleCount s"
  "m_pbBus (Jam s) = m_pbBus s"
  "m_bNmiStatusLine (Jam s) = m_bNmiStatusLine s"
  "m_bIrqStatusLine (Jam s) = m_bIrqStatusLine s"
  by (simp_all add: Jam_def Let_def LSN_NEXT_FUNCTION_def LSN_NEXT_FUNCTION_BY_def)

lemma Jam_Phi2_fields:
  "m_pfTickFunc (Jam_Phi2 E s) = m_pfTickFunc s"
  "m_pfCurInstruction (Jam_Phi2 E s) = m_pfCurInstruction s"
  "m_ui8FuncIndex (Jam_Phi2 E s) = m_ui8FuncIndex s - 1"
  "m_rRegs (Jam_Phi2 E s) = m_rRegs s"
  "m_ui16PcModify (Jam_Phi2 E s) = m_ui16PcModify s"
  "m_bAllowWritingToPc (Jam_Phi2 E s) = m_bAllowWritingToPc s"
  "m_ui16OpCode (Jam_Phi2 E s) = m_ui16OpCode s"
  "m_ui64CycleCount (Jam_Phi2 E s) = m_ui64CycleCount s"
  "m_pbBus (Jam_Phi2 E s) =
     fst (snd (bus_Read E (m_pbBus s) (m_bNmiStatusLine s) (m_bIrqStatusLine s) (ui16Pc (m_rRegs s) + 1)))"
  by (simp_all add: Jam_Phi2_def Let_def LSN_NEXT_FUNCTION_BY_def LSN_INSTR_START_PHI2_READ_def
        split: prod.split)

lemma TickPhi2_fields:
  "m_pfTickFunc (TickPhi2 E s) = m_pfTickFunc (call_PfTicks E (m_pfTickFunc s) s)"
  "m_pfCurInstruction (TickPhi2 E s) = m_pfCurInstruction (call_PfTicks E (m_pfTickFunc s) s)"
  "m_ui8FuncIndex (TickPhi2 E s) = m_ui8FuncIndex (call_PfTicks E (m_pfTickFunc s) s)"
  "m_rRegs (TickPhi2 E s) = m_rRegs (call_PfTicks E (m_pfTickFunc s) s)"
  "m_ui16PcModify (TickPhi2 E s) = m_ui16PcModify (call_PfTicks E (m_pfTickFunc s) s)"
  "m_bAllowWritingToPc (TickPhi2 E s) = m_bAllowWritingToPc (call_PfTicks E (m_pfTickFunc s) s)"
  "m_ui16OpCode (TickPhi2 E s) = m_ui16OpCode (call_PfTicks E (m_pfTickFunc s) s)"
  "m_ui64CycleCount (TickPhi2 E s) = m_ui64CycleCount (call_PfTicks E (m_pfTickFunc s) s) + 1"
  "m_pbBus (TickPhi2 E s) = m_pbBus (call_PfTicks E (m_pfTickFunc s) s)"
  by (simp_all add: TickPhi2_def Let_def)

lemma Tick_at_Jam:
  assumes "at_Jam s"
  shows "Tick E s = Jam (Tick_prologue E s)"
  using assms
  by (simp add: Tick_eq_prologue at_Jam_def Tick_prologue_fields Tick_NextInstructionStd_body_def)

lemma TickPhi2_after_Jam:
  assumes "at_Jam s"
  shows "Tick_NextInstructionStd_body E (Jam (Tick_prologue E s))
           = Jam_Phi2 E (Jam (Tick_prologue E s))"
  using assms
  by (simp add: at_Jam_def Jam_fields Tick_prologue_fields Tick_NextInstructionStd_body_def)

lemma jam_cycle:
  assumes "at_Jam s"
  shows "at_Jam (master_cycle E s)"
    and "m_rRegs (master_cycle E s) = (m_rRegs s)\<lparr>ui16Pc :=
           (if m_bAllowWritingToPc s then ui16Pc (m_rRegs s) - m_ui16PcModify s else ui16Pc (m_rRegs s))\<rparr>"
    and "m_ui16PcModify (master_cycle E s) = 0"
    and "m_ui8FuncIndex (master_cycle E s) = m_ui8FuncIndex s"
    and "m_pfCurInstruction (master_cycle E s) = m_pfCurInstruction s"
    and "m_ui16OpCode (master_cycle E s) = m_ui16OpCode s"
    and "m_pfTickFunc (master_cycle E s) = Tick_NextInstructionStd"
    and "m_ui64CycleCount (master_cycle E s) = m_ui64CycleCount s + 1"
    and "m_pbBus (master_cycle E s) =
           fst (snd (bus_Read E (m_pbBus (Tick_prologue E s)) (m_bNmiStatusLine s)
                       (m_bIrqStatusLine (Tick_prologue E s))
                       (ui16Pc (m_rRegs (master_cycle E s)) + 1)))"
  using assms
  by (simp_all add: master_cycle_def Tick_at_Jam TickPhi2_fields TickPhi2_after_Jam
        Jam_Phi2_fields Jam_fields Tick_prologue_fields at_Jam_def)


lemma cycles_Suc_right: "cycles (Suc n) E s = master_cycle E (cycles n E s)"
  by (induction n arbitrary: s) simp_all

lemma jam_cycles_invariant:
  assumes "at_Jam s"
  shows "at_Jam (cycles n E s)
         \<and> m_ui8FuncIndex (cycles n E s) = m_ui8FuncIndex s
         \<and> m_pfCurInstruction (cycles n E s) = m_pfCurInstruction s
         \<and> m_ui16OpCode (cycles n E s) = m_ui16OpCode s
         \<and> m_ui64CycleCount (cycles n E s) = m_ui64CycleCount s + word_of_nat n"
  using assms
proof (induction n arbitrary: s)
  case 0
  then show ?case by simp
next
  case (Suc n)
  from jam_cycle [OF Suc.prems, of E] Suc.IH [of "master_cycle E s"]
  show ?case by simp
qed

lemma jam_cycles_regs:
  assumes "at_Jam s"
  shows "m_rRegs (cycles (Suc n) E s) = m_rRegs (master_cycle E s)
         \<and> m_ui16PcModify (cycles (Suc n) E s) = 0"
proof (induction n)
  case 0
  from jam_cycle [OF assms, of E] show ?case by simp
next
  case (Suc n)
  let ?t = "cycles (Suc n) E s"
  from jam_cycles_invariant [OF assms, of "Suc n" E] have t: "at_Jam ?t" by blast
  have "cycles (Suc (Suc n)) E s = master_cycle E ?t" by (rule cycles_Suc_right)
  with jam_cycle(2,3) [OF t, of E] Suc.IH show ?case by simp
qed

text \<open>Claim C5.  Once the CPU is at the \<open>Jam\<close> micro-step of a JAM opcode, it is there again
  after every master cycle, whatever the bus, the mapper and the interrupt lines do: the
  micro-step index, the handler array and the opcode never change (no instruction is
  begun), only the cycle counter advances; the register file, PC included, is the same
  after every cycle as after the first one (where \<open>Jam\<close> takes back the scheduled PC move);
  and each cycle makes one bus read, always at the same address, PC + 1.\<close>

theorem Jam_freezes:
  assumes "at_Jam s"
  shows "at_Jam (cycles n E s)
         \<and> m_ui8FuncIndex (cycles n E s) = m_ui8FuncIndex s
         \<and> m_pfCurInstruction (cycles n E s) = m_pfCurInstruction s
         \<and> m_ui16OpCode (cycles n E s) = m_ui16OpCode s
         \<and> m_ui64CycleCount (cycles n E s) = m_ui64CycleCount s + word_of_nat n
         \<and> m_rRegs (cycles (Suc n) E s) = m_rRegs (cycles 1 E s)
         \<and> ui16Pc (m_rRegs (cycles 1 E s)) =
             (if m_bAllowWritingToPc s then ui16Pc (m_rRegs s) - m_ui16PcModify s
              else ui16Pc (m_rRegs s))
         \<and> m_pbBus (cycles (Suc n) E s) =
             fst (snd (bus_Read E (m_pbBus (Tick_prologue E (cycles n E s)))
                         (m_bNmiStatusLine (cycles n E s))
                         (m_bIrqStatusLine (Tick_prologue E (cycles n E s)))
                         (ui16Pc (m_rRegs (cycles 1 E s)) + 1)))"
proof -
  from jam_cycles_invariant [OF assms, of n E] have t: "at_Jam (cycles n E s)" by blast
  have one: "cycles 1 E s = master_cycle E s" by simp
  have regs: "m_rRegs (cycles (Suc n) E s) = m_rRegs (cycles 1 E s)"
    using jam_cycles_regs [OF assms, of n E] by (simp only: one)
  have pc: "ui16Pc (m_rRegs (cycles 1 E s)) =
             (if m_bAllowWritingToPc s then ui16Pc (m_rRegs s) - m_ui16PcModify s
              else ui16Pc (m_rRegs s))"
    using jam_cycle(2) [OF assms, of E] by (simp only: one) simp
  have "m_pbBus (master_cycle E (cycles n E s)) =
             fst (snd (bus_Read E (m_pbBus (Tick_prologue E (cycles n E s)))
                         (m_bNmiStatusLine (cycles n E s))
                         (m_bIrqStatusLine (Tick_prologue E (cycles n E s)))
                         (ui16Pc (m_rRegs (master_cycle E (cycles n E s))) + 1)))"
    by (rule jam_cycle(9) [OF t])
  then have bus: "m_pbBus (cycles (Suc n) E s) =
             fst (snd (bus_Read E (m_pbBus (Tick_prologue E (cycles n E s)))
                         (m_bNmiStatusLine (cycles n E s))
                         (m_bIrqStatusLine (Tick_prologue E (cycles n E s)))
                         (ui16Pc (m_rRegs (cycles 1 E s)) + 1)))"
    by (simp only: cycles_Suc_right [symmetric] regs)
  from jam_cycles_invariant [OF assms, of n E] regs pc bus show ?thesis by (intro conjI) blast+
qed

text \<open>A JAM reached at PC 0x8000 with a scheduled PC move of one: the PC is 0x7FFF after the
  first cycle and stays there, and every cycle reads 0x8000.\<close>

theorem Jam_freezes_witness:
  "at_Jam (cpu0\<lparr>m_pfCurInstruction := jam_handlers, m_ui16PcModify := 1\<rparr>)
   \<and> at_Jam (cycles 3 (tape_env False jam_handlers)
               (cpu0\<lparr>m_pfCurInstruction := jam_handlers, m_ui16PcModify := 1\<rparr>))
   \<and> m_ui8FuncIndex (cycles 3 (tape_env False jam_handlers)
               (cpu0\<lparr>m_pfCurInstruction := jam_handlers, m_ui16PcModify := 1\<rparr>)) = 0
   \<and> m_rRegs (cycles (Suc 3) (tape_env False jam_handlers)
               (cpu0\<lparr>m_pfCurInstruction := jam_handlers, m_ui16PcModify := 1\<rparr>))
       = m_rRegs (cycles 1 (tape_env False jam_handlers)
               (cpu0\<lparr>m_pfCurInstruction := jam_handlers, m_ui16PcModify := 1\<rparr>))
   \<and> ui16Pc (m_rRegs (cycles 1 (tape_env False jam_handlers)
               (cpu0\<lparr>m_pfCurInstruction := jam_handlers, m_ui16PcModify := 1\<rparr>))) = 0x7FFF
   \<and> tape (m_pbBus (cycles 3 (tape_env False jam_handlers)
               (cpu0\<lparr>m_pfCurInstruction := jam_handlers, m_ui16PcModify := 1\<rparr>)))
       = [(0x8000, 0xEA, True), (0x8000, 0xEA, True), (0x8000, 0xEA, True)]"
proof -
  let ?s = "cpu0\<lparr>m_pfCurInstruction := jam_handlers, m_ui16PcModify := 1\<rparr>"
  have h: "at_Jam ?s" by (simp add: at_Jam_def cpu0_def jam_handlers_def)
  have f: "m_ui8FuncIndex ?s = 0" "m_bAllowWritingToPc ?s" "ui16Pc (m_rRegs ?s) = 0x8000"
    "m_ui16PcModify ?s = 1"
    by (simp_all add: cpu0_def)
  have t: "tape (m_pbBus (cycles 3 (tape_env False jam_handlers) ?s))
       = [(0x8000, 0xEA, True), (0x8000, 0xEA, True), (0x8000, 0xEA, True)]"
    by (simp add: eval_nat_numeral master_cycle_def Tick_def TickPhi2_def Let_def
          call_mapper_Tick_def Tick_NextInstructionStd_body_def Jam_def Jam_Phi2_def
          LSN_NEXT_FUNCTION_def LSN_NEXT_FUNCTION_BY_def LSN_INSTR_START_PHI2_READ_def
          tape_env_def cpu0_def jam_handlers_def)
  from Jam_freezes [OF h, of 3 "tape_env False jam_handlers"] h f t show ?thesis by simp
qed

section \<open>Controller port 0x4016\<close>

lemma Read4016_eq:
  "Read4016 c =
     (if bit (m_ui8InputsState c 0) 7 then 1 else 0,
      c\<lparr>m_ui8InputsState := (m_ui8InputsState c)(0 := push_bit 1 (m_ui8InputsState c 0))\<rparr>)"
  by (simp add: Read4016_def Let_def bit7_test)

lemma Write4016_latches:
  "m_ui8InputsState (Write4016 P v c) 0 = (case m_pipPoller c of Some p \<Rightarrow> P p 0 | None \<Rightarrow> 0)"
  by (simp add: Write4016_def Let_def split: option.split)


lemma bit_shift1: "bit (push_bit 1 (w :: uint8_t)) j = (j < 8 \<and> 1 \<le> j \<and> bit w (j - 1))"
  unfolding bit_push_bit_iff
  by (auto simp: possible_bit_word simp del: push_bit_of_1 dest: bit_imp_le_length)

lemma shifted_bit:
  "(bit (push_bit 1 (w :: uint8_t)) (7 - k) \<and> k < 8) = (bit w (7 - Suc k) \<and> Suc k < 8)"
  unfolding bit_shift1 by (cases "k < 7") auto

lemma reads4016_bits:
  "fst (reads4016 n c) =
     map (\<lambda>k. if bit (m_ui8InputsState c 0) (7 - k) \<and> k < 8 then 1 else 0) [0..<n]"
proof (induction n arbitrary: c)
  case 0
  then show ?case by simp
next
  case (Suc n)
  let ?w = "m_ui8InputsState c 0"
  let ?c1 = "c\<lparr>m_ui8InputsState := (m_ui8InputsState c)(0 := push_bit 1 ?w)\<rparr>"
  have st: "m_ui8InputsState ?c1 0 = push_bit 1 ?w" by simp
  have "fst (reads4016 (Suc n) c) =
          (if bit ?w 7 then 1 else 0) # fst (reads4016 n ?c1)"
    by (simp add: Read4016_eq split: prod.split)
  also have "fst (reads4016 n ?c1) =
     map (\<lambda>k. if bit (push_bit 1 ?w) (7 - k) \<and> k < 8 then 1 else 0) [0..<n]"
    unfolding Suc.IH [of ?c1] st ..
  also have "\<dots> = map (\<lambda>k. if bit ?w (7 - Suc k) \<and> Suc k < 8 then 1 else 0) [0..<n]"
    unfolding shifted_bit ..
  finally show ?case by (simp add: map_upt_Suc del: upt_Suc)
qed

text \<open>Claim C7, as the code has it.  A read of 0x4016 returns the most significant bit of the
  controller-1 shift register (as 0 or 1) and shifts the register left by one.  Every
  write, whatever bit 0 of the value is, stores the low three bits of the value in
  \<open>m_ui8Inputs[0]\<close> and latches the poller's snapshot of port 0 (0 without a poller) into
  the shift register; the reads that follow return the snapshot's bits from bit 7 down, and
  0 from the ninth read on.\<close>

theorem port4016_behaviour:
  "Read4016 c =
     (if bit (m_ui8InputsState c 0) 7 then 1 else 0,
      c\<lparr>m_ui8InputsState := (m_ui8InputsState c)(0 := push_bit 1 (m_ui8InputsState c 0))\<rparr>)
   \<and> m_ui8InputsState (Write4016 P v c) 0 = (case m_pipPoller c of Some p \<Rightarrow> P p 0 | None \<Rightarrow> 0)
   \<and> m_ui8Inputs (Write4016 P v c) 0 = (m_ui8Inputs c 0 AND 0b11111000) OR (v AND 0b00000111)
   \<and> fst (reads4016 n (Write4016 P v c)) =
       map (\<lambda>k. if bit (case m_pipPoller c of Some p \<Rightarrow> P p 0 | None \<Rightarrow> 0) (7 - k) \<and> k < 8
                then 1 else 0) [0..<n]"
proof -
  have "m_ui8Inputs (Write4016 P v c) 0 = (m_ui8Inputs c 0 AND 0b11111000) OR (v AND 0b00000111)"
    by (simp add: Write4016_def Let_def split: option.split)
  with Read4016_eq [of c] Write4016_latches [of P v c] reads4016_bits [of n "Write4016 P v c"]
  show ?thesis by simp
qed

text \<open>The claim as stated says that a write with bit 0 clear does not latch.  A write of 0x00
  with the buttons at 0xA5 replaces a shift register of 0 by 0xA5.\<close>

theorem Write4016_strobe_counterexample:
  "(0x00 :: uint8_t) AND 1 = 0
   \<and> m_ui8InputsState (Write4016 (\<lambda>p port. p) 0x00
        \<lparr>m_pipPoller = Some (0xA5 :: uint8_t), m_ui8Inputs = (\<lambda>i. 0),
         m_ui8InputsState = (\<lambda>i. 0), m_ui8InputsPoll = (\<lambda>i. 0)\<rparr>) 0 = 0xA5
   \<and> m_ui8InputsState (Write4016 (\<lambda>p port. p) 0x00
        \<lparr>m_pipPoller = Some (0xA5 :: uint8_t), m_ui8Inputs = (\<lambda>i. 0),
         m_ui8InputsState = (\<lambda>i. 0), m_ui8InputsPoll = (\<lambda>i. 0)\<rparr>) 0
      \<noteq> m_ui8InputsState
        \<lparr>m_pipPoller = Some (0xA5 :: uint8_t), m_ui8Inputs = (\<lambda>i. 0),
         m_ui8InputsState = (\<lambda>i. 0), m_ui8InputsPoll = (\<lambda>i. 0)\<rparr> 0"
  by (simp add: Write4016_def Let_def)


text \<open>With the buttons at 0xA5, nine reads after a write of 0x01 and after a write of 0x00
  return the same bits; without a poller a write clears the shift register.\<close>

theorem port4016_behaviour_witness:
  "fst (reads4016 9 (Write4016 (\<lambda>p port. p) 0x01
        \<lparr>m_pipPoller = Some (0xA5 :: uint8_t), m_ui8Inputs = (\<lambda>i. 0),
         m_ui8InputsState = (\<lambda>i. 0), m_ui8InputsPoll = (\<lambda>i. 0)\<rparr>))
     = [1, 0, 1, 0, 0, 1, 0, 1, 0]
   \<and> fst (reads4016 9 (Write4016 (\<lambda>p port. p) 0x00
        \<lparr>m_pipPoller = Some (0xA5 :: uint8_t), m_ui8Inputs = (\<lambda>i. 0),
         m_ui8InputsState = (\<lambda>i. 0), m_ui8InputsPoll = (\<lambda>i. 0)\<rparr>))
     = [1, 0, 1, 0, 0, 1, 0, 1, 0]
   \<and> fst (reads4016 2 (Write4016 (\<lambda>p port. p) 0x01
        \<lparr>m_pipPoller = (None :: uint8_t option), m_ui8Inputs = (\<lambda>i. 0),
         m_ui8InputsState = (\<lambda>i. 0xFF), m_ui8InputsPoll = (\<lambda>i. 0)\<rparr>))
     = [0, 0]"
proof -
  let ?c = "\<lparr>m_pipPoller = Some (0xA5 :: uint8_t), m_ui8Inputs = (\<lambda>i. 0),
         m_ui8InputsState = (\<lambda>i. 0), m_ui8InputsPoll = (\<lambda>i. 0)\<rparr>"
  let ?d = "\<lparr>m_pipPoller = (None :: uint8_t option), m_ui8Inputs = (\<lambda>i. 0),
         m_ui8InputsState = (\<lambda>i. 0xFF), m_ui8InputsPoll = (\<lambda>i. 0)\<rparr>"
  note R = port4016_behaviour [THEN conjunct2, THEN conjunct2, THEN conjunct2]
  have bits: "bit (0xA5 :: uint8_t) 7" "\<not> bit (0xA5 :: uint8_t) 6" "bit (0xA5 :: uint8_t) 5"
    "\<not> bit (0xA5 :: uint8_t) 4" "\<not> bit (0xA5 :: uint8_t) 3" "bit (0xA5 :: uint8_t) 2"
    "\<not> bit (0xA5 :: uint8_t) 1" "bit (0xA5 :: uint8_t) 0"
    by (simp_all add: bit_numeral_simps bit_simps)
  have 1: "fst (reads4016 9 (Write4016 (\<lambda>p port. p) 0x01 ?c)) = [1, 0, 1, 0, 0, 1, 0, 1, 0]"
    unfolding R [of 9 "\<lambda>p port. p" "0x01" ?c] by (simp add: upt_rec bits)
  have 2: "fst (reads4016 9 (Write4016 (\<lambda>p port. p) 0x00 ?c)) = [1, 0, 1, 0, 0, 1, 0, 1, 0]"
    unfolding R [of 9 "\<lambda>p port. p" "0x00" ?c] by (simp add: upt_rec bits)
  have 3: "fst (reads4016 2 (Write4016 (\<lambda>p port. p) 0x01 ?d)) = [0, 0]"
    unfolding R [of 2 "\<lambda>p port. p" "0x01" ?d] by (simp add: upt_rec)
  from 1 2 3 show ?thesis by blast
qed


end
